theory Spec2Isabelle
  imports Main "HOL-Library.AList"
begin

section \<open>JavaScript values used by \<open>frontend/app.js\<close>\<close>

text \<open>
  A JavaScript string is modelled as a \<open>string\<close>: one \<open>char\<close> per code unit, which
  covers the code units below 256. \<open>String.prototype.trim\<close> removes white space and line
  terminators from both ends; below 256 these are TAB, LF, VT, FF, CR, SPACE and NBSP.
\<close>

definition is_ws :: "char \<Rightarrow> bool" where
  "is_ws c = (c \<in> set [CHR 0x09, CHR 0x0A, CHR 0x0B, CHR 0x0C, CHR 0x0D, CHR 0x20, CHR 0xA0])"

definition trim :: "string \<Rightarrow> string" where
  "trim s = rev (dropWhile is_ws (rev (dropWhile is_ws s)))"

text \<open>A string is truthy exactly when it is not empty.\<close>

definition truthy :: "string \<Rightarrow> bool" where
  "truthy s = (s \<noteq> [])"

text \<open>\<open>s.split(sep)\<close> for a one-character separator: \<open>''.split('\n')\<close> is \<open>['']\<close>.\<close>

fun js_split :: "char \<Rightarrow> string \<Rightarrow> string list" where
  "js_split sep [] = [[]]"
| "js_split sep (c # cs) =
     (if c = sep then [] # js_split sep cs
      else (case js_split sep cs of [] \<Rightarrow> [[c]] | x # xs \<Rightarrow> (c # x) # xs))"

text \<open>\<open>xs.join(sep)\<close> on an array of strings.\<close>

fun js_join :: "string \<Rightarrow> string list \<Rightarrow> string" where
  "js_join sep [] = []"
| "js_join sep [x] = x"
| "js_join sep (x # y # ys) = x @ sep @ js_join sep (y # ys)"

text \<open>
  \<open>xs[i]\<close> for an integer \<open>i\<close>: \<open>undefined\<close> (here \<open>None\<close>) outside \<open>0 \<le> i < length\<close>,
  also for a negative \<open>i\<close>.
\<close>

definition js_index :: "'a list \<Rightarrow> int \<Rightarrow> 'a option" where
  "js_index xs i = (if 0 \<le> i \<and> i < int (length xs) then Some (xs ! nat i) else None)"

text \<open>
  \<open>xs.splice(start, deleteCount)\<close> for integer arguments, as the array it leaves behind
  (the code ignores the array of removed items it returns). A negative \<open>start\<close> counts
  from the end and is clamped at 0; a \<open>start\<close> beyond the end is clamped at the length.
\<close>

definition js_splice :: "'a list \<Rightarrow> int \<Rightarrow> int \<Rightarrow> 'a list" where
  "js_splice xs start deleteCount =
     (let len = int (length xs);
          actualStart = (if start < 0 then max (len + start) 0 else min start len);
          actualDeleteCount = min (max deleteCount 0) (len - actualStart)
      in take (nat actualStart) xs @ drop (nat (actualStart + actualDeleteCount)) xs)"

text \<open>
  A number in a template literal: the decimal digits of a natural number
  (\<open>Date.now()\<close> is the only number the code prints).
\<close>

function decimal :: "nat \<Rightarrow> string" where
  "decimal n =
     (if n < 10 then [char_of (48 + n)]
      else decimal (n div 10) @ [char_of (48 + n mod 10)])"
  by pat_completeness auto
termination
  by (relation "measure id") auto

datatype js_error = TypeError

section \<open>The data model\<close>

record experience_entry =
  title :: string
  company :: string
  period :: string
  bullets :: "string list"

record project_entry =
  name :: string
  tech_stack :: string
  description :: string

record education_entry =
  degree :: string
  institute :: string
  year :: string
  grade :: string

text \<open>The global \<open>state\<close> object: the five collections.\<close>

record collections =
  skills :: "string list"
  experience :: "experience_entry list"
  projects :: "project_entry list"
  education :: "education_entry list"
  achievements :: "string list"

text \<open>
  The page as the code sees it. \<open>elem_value id\<close> is \<open>document.getElementById(id).value\<close>
  and \<open>display id\<close> is the element's \<open>style.display\<close>; \<open>index.html\<close> is not among the
  sources, so every element the code looks up is taken to exist, and a value written to
  an element is the value read back. \<open>alerts\<close> is the sequence of messages shown by
  \<open>alert\<close>, oldest first. \<open>btn_innerHTML\<close> and \<open>btn_disabled\<close> belong to the
  \<open>.generate-btn\<close> control, \<open>pdf_href\<close> and \<open>pdf_download\<close> to \<open>download-pdf\<close>.

  \<open>refreshLists\<close> and \<open>renderList\<close> write only the \<open>innerHTML\<close> of the five list
  containers, which no function of the file reads; the markup is not modelled.
\<close>

record app =
  state :: collections
  currentMode :: string
  elem_value :: "string \<Rightarrow> string"
  display :: "string \<Rightarrow> string"
  alerts :: "string list"
  btn_innerHTML :: string
  btn_disabled :: bool
  pdf_href :: string
  pdf_download :: string

definition set_value :: "string \<Rightarrow> string \<Rightarrow> app \<Rightarrow> app" where
  "set_value i v a = a\<lparr>elem_value := (elem_value a)(i := v)\<rparr>"

definition alert :: "string \<Rightarrow> app \<Rightarrow> app" where
  "alert msg a = a\<lparr>alerts := alerts a @ [msg]\<rparr>"

definition newline :: char where
  "newline = CHR 0x0A"

section \<open>The editable collection store\<close>

subsection \<open>add\<close>

definition addSkill :: "app \<Rightarrow> app" where
  "addSkill a =
     (let input = elem_value a ''new-skill'' in
      if truthy (trim input)
      then set_value ''new-skill'' ''''
             (a\<lparr>state := (state a)\<lparr>skills := skills (state a) @ [trim input]\<rparr>\<rparr>)
      else a)"

definition addAch :: "app \<Rightarrow> app" where
  "addAch a =
     (let input = elem_value a ''new-ach'' in
      if truthy (trim input)
      then set_value ''new-ach'' ''''
             (a\<lparr>state := (state a)\<lparr>achievements := achievements (state a) @ [trim input]\<rparr>\<rparr>)
      else a)"

definition addExp :: "app \<Rightarrow> app" where
  "addExp a =
     (let title_v = elem_value a ''exp-title'';
          company_v = elem_value a ''exp-company'';
          period_v = elem_value a ''exp-period'';
          bullets_v = elem_value a ''exp-bullets''
      in if truthy (trim title_v) \<and> truthy (trim company_v)
         then set_value ''exp-bullets'' ''''
               (set_value ''exp-period'' ''''
                 (set_value ''exp-company'' ''''
                   (set_value ''exp-title'' ''''
                     (a\<lparr>state := (state a)\<lparr>experience := experience (state a) @
                         [\<lparr>title = trim title_v, company = trim company_v,
                           period = trim period_v,
                           bullets = filter (\<lambda>x. truthy (trim x))
                                       (js_split newline bullets_v)\<rparr>]\<rparr>\<rparr>))))
         else alert ''Job Title and Company are required.'' a)"

definition addProj :: "app \<Rightarrow> app" where
  "addProj a =
     (let name_v = elem_value a ''proj-name'';
          stack_v = elem_value a ''proj-stack'';
          desc_v = elem_value a ''proj-desc''
      in if truthy (trim name_v)
         then set_value ''proj-desc'' ''''
               (set_value ''proj-stack'' ''''
                 (set_value ''proj-name'' ''''
                   (a\<lparr>state := (state a)\<lparr>projects := projects (state a) @
                       [\<lparr>name = trim name_v, tech_stack = trim stack_v,
                         description = trim desc_v\<rparr>]\<rparr>\<rparr>)))
         else alert ''Project Name is required.'' a)"

definition addEdu :: "app \<Rightarrow> app" where
  "addEdu a =
     (let degree_v = elem_value a ''edu-degree'';
          institute_v = elem_value a ''edu-institute'';
          year_v = elem_value a ''edu-year'';
          grade_v = elem_value a ''edu-grade''
      in if truthy (trim degree_v)
         then set_value ''edu-grade'' ''''
               (set_value ''edu-year'' ''''
                 (set_value ''edu-institute'' ''''
                   (set_value ''edu-degree'' ''''
                     (a\<lparr>state := (state a)\<lparr>education := education (state a) @
                         [\<lparr>degree = trim degree_v, institute = trim institute_v,
                           year = trim year_v, grade = trim grade_v\<rparr>]\<rparr>\<rparr>))))
         else alert ''Degree is required.'' a)"

subsection \<open>remove\<close>

text \<open>
  The five tests of \<open>removeItem\<close> and of \<open>editItem\<close> compare \<open>listId\<close> with five
  different literals, so at most one of the blocks runs; the model is the chain of the
  five tests in the source's order. \<open>index\<close> is a JavaScript number; the model takes an
  integer.
\<close>

definition removeItem :: "string \<Rightarrow> int \<Rightarrow> app \<Rightarrow> app" where
  "removeItem listId index a =
     (if listId = ''skills-list''
      then a\<lparr>state := (state a)\<lparr>skills := js_splice (skills (state a)) index 1\<rparr>\<rparr>
      else if listId = ''experience-list''
      then a\<lparr>state := (state a)\<lparr>experience := js_splice (experience (state a)) index 1\<rparr>\<rparr>
      else if listId = ''project-list''
      then a\<lparr>state := (state a)\<lparr>projects := js_splice (projects (state a)) index 1\<rparr>\<rparr>
      else if listId = ''edu-list''
      then a\<lparr>state := (state a)\<lparr>education := js_splice (education (state a)) index 1\<rparr>\<rparr>
      else if listId = ''ach-list''
      then a\<lparr>state := (state a)\<lparr>achievements := js_splice (achievements (state a)) index 1\<rparr>\<rparr>
      else a)"

subsection \<open>edit\<close>

text \<open>
  \<open>item = state.skills[index]\<close> is \<open>undefined\<close> when \<open>index\<close> is out of range. Writing
  \<open>undefined\<close> to an element's \<open>value\<close> stores the text \<open>undefined\<close>; reading a property
  of \<open>undefined\<close> (\<open>item.title\<close>) throws a \<open>TypeError\<close>, before anything is written.
  \<open>item.bullets || []\<close> is \<open>item.bullets\<close>, since an array is truthy; \<open>item.grade || ''\<close>
  is \<open>item.grade\<close> unless that is the empty string.
\<close>

definition editItem :: "string \<Rightarrow> int \<Rightarrow> app \<Rightarrow> js_error + app" where
  "editItem listId index a =
     (if listId = ''skills-list''
      then Inr ((set_value ''new-skill''
                  (case js_index (skills (state a)) index of
                     None \<Rightarrow> ''undefined'' | Some item \<Rightarrow> item) a)
                \<lparr>state := (state a)\<lparr>skills := js_splice (skills (state a)) index 1\<rparr>\<rparr>)
      else if listId = ''experience-list''
      then (case js_index (experience (state a)) index of
              None \<Rightarrow> Inl TypeError
            | Some item \<Rightarrow>
                Inr ((set_value ''exp-bullets'' (js_join [newline] (bullets item))
                       (set_value ''exp-period'' (period item)
                         (set_value ''exp-company'' (company item)
                           (set_value ''exp-title'' (title item) a))))
                     \<lparr>state := (state a)\<lparr>experience :=
                         js_splice (experience (state a)) index 1\<rparr>\<rparr>))
      else if listId = ''project-list''
      then (case js_index (projects (state a)) index of
              None \<Rightarrow> Inl TypeError
            | Some item \<Rightarrow>
                Inr ((set_value ''proj-desc'' (description item)
                       (set_value ''proj-stack'' (tech_stack item)
                         (set_value ''proj-name'' (name item) a)))
                     \<lparr>state := (state a)\<lparr>projects :=
                         js_splice (projects (state a)) index 1\<rparr>\<rparr>))
      else if listId = ''edu-list''
      then (case js_index (education (state a)) index of
              None \<Rightarrow> Inl TypeError
            | Some item \<Rightarrow>
                Inr ((set_value ''edu-grade'' (if truthy (grade item) then grade item else '''')
                       (set_value ''edu-year'' (year item)
                         (set_value ''edu-institute'' (institute item)
                           (set_value ''edu-degree'' (degree item) a))))
                     \<lparr>state := (state a)\<lparr>education :=
                         js_splice (education (state a)) index 1\<rparr>\<rparr>))
      else if listId = ''ach-list''
      then Inr ((set_value ''new-ach''
                  (case js_index (achievements (state a)) index of
                     None \<Rightarrow> ''undefined'' | Some item \<Rightarrow> item) a)
                \<lparr>state := (state a)\<lparr>achievements :=
                    js_splice (achievements (state a)) index 1\<rparr>\<rparr>)
      else Inr a)"

section \<open>Building the request\<close>

text \<open>
  A JavaScript object is an association list in insertion order; \<open>obj.k = v\<close> replaces
  the value of an existing key in place and appends a new key at the end.
\<close>

datatype field_value =
    Text string
  | TextList "string list"
  | ExperienceList "experience_entry list"
  | ProjectList "project_entry list"
  | EducationList "education_entry list"

datatype payload_value =
    PNull
  | PBool bool
  | PText string
  | PFields "(string \<times> field_value) list"

definition assign :: "string \<Rightarrow> 'v \<Rightarrow> (string \<times> 'v) list \<Rightarrow> (string \<times> 'v) list" where
  "assign k v obj = AList.update k v obj"

definition assign_all :: "(string \<times> 'v) list \<Rightarrow> (string \<times> 'v) list \<Rightarrow> (string \<times> 'v) list" where
  "assign_all obj kvs = foldl (\<lambda>obj (k, v). assign k v obj) obj kvs"

definition baseFields :: "app \<Rightarrow> (string \<times> field_value) list" where
  "baseFields a =
     [(''name'', Text (elem_value a ''field-name'')),
      (''email'', Text (elem_value a ''field-email'')),
      (''phone'', Text (elem_value a ''field-phone'')),
      (''location'', Text (elem_value a ''field-location''))]"

text \<open>
  \<open>payload.fields\<close> is the object \<open>baseFields\<close> itself, so the assignments made after
  \<open>payload\<close> is built are part of what is sent; \<open>payload_fields\<close> is that object when
  \<open>JSON.stringify\<close> reads it.
\<close>

definition payload_fields :: "app \<Rightarrow> (string \<times> field_value) list" where
  "payload_fields a =
     (let docType = elem_value a ''doc-type'' in
      if docType = ''resume'' then
        assign_all (baseFields a)
          [(''summary'', Text (elem_value a ''field-summary'')),
           (''skills'', TextList (skills (state a))),
           (''experience_list'', ExperienceList (experience (state a))),
           (''education'', EducationList (education (state a))),
           (''projects'', ProjectList (projects (state a))),
           (''achievements'', TextList (achievements (state a)))]
      else if docType = ''sop'' then
        assign_all (baseFields a)
          [(''applicant_name'', the (map_of (baseFields a) ''name'')),
           (''intro'', Text (elem_value a ''sop-intro'')),
           (''academic_background'', Text (elem_value a ''sop-academic'')),
           (''research_experience'', Text (elem_value a ''sop-research'')),
           (''why_program'', Text (elem_value a ''sop-why-program'')),
           (''career_goals'', Text (elem_value a ''sop-goals'')),
           (''conclusion'', Text (elem_value a ''sop-conclusion''))]
      else if docType = ''letter'' then
        assign_all (baseFields a)
          [(''sender_name'', Text (elem_value a ''letter-sender-name'')),
           (''sender_address'', Text (elem_value a ''letter-sender-addr'')),
           (''receiver_name'', Text (elem_value a ''letter-receiver-name'')),
           (''receiver_address'', Text (elem_value a ''letter-receiver-addr'')),
           (''receiver_salutation'', Text (elem_value a ''letter-salutation'')),
           (''subject'', Text (elem_value a ''letter-subject'')),
           (''date'', Text (elem_value a ''letter-date'')),
           (''body'', Text (elem_value a ''letter-body''))]
      else if docType = ''contract'' then
        assign_all (baseFields a)
          [(''party_a'', Text (elem_value a ''cont-party-a'')),
           (''party_b'', Text (elem_value a ''cont-party-b'')),
           (''date_a'', Text (elem_value a ''cont-date-a'')),
           (''date_b'', Text (elem_value a ''cont-date-b'')),
           (''scope'', Text (elem_value a ''cont-scope'')),
           (''responsibilities'', Text (elem_value a ''cont-resp'')),
           (''payment_terms'', Text (elem_value a ''cont-payment'')),
           (''confidentiality_clause'', Text (elem_value a ''cont-confidentiality'')),
           (''termination_clause'', Text (elem_value a ''cont-termination''))]
      else if docType = ''report'' then
        assign_all (baseFields a)
          [(''title'', Text (elem_value a ''rep-title'')),
           (''author'', Text (elem_value a ''rep-author'')),
           (''date'', Text (elem_value a ''rep-date'')),
           (''executive_summary'', Text (elem_value a ''rep-summary'')),
           (''objectives'', Text (elem_value a ''rep-objectives'')),
           (''methodology'', Text (elem_value a ''rep-methodology'')),
           (''findings'', Text (elem_value a ''rep-findings'')),
           (''recommendations'', Text (elem_value a ''rep-recs'')),
           (''conclusion'', Text (elem_value a ''rep-conclusion''))]
      else baseFields a)"

definition payload :: "app \<Rightarrow> (string \<times> payload_value) list" where
  "payload a =
     [(''doc_type'', PText (elem_value a ''doc-type'')),
      (''use_gemini'', PBool (currentMode a = ''guided'')),
      (''ai_context'',
         if currentMode a = ''guided'' then PText (elem_value a ''ai-context'') else PNull),
      (''fields'', PFields (payload_fields a)),
      (''return_docx'', PBool False)]"

section \<open>The submission\<close>

text \<open>
  What the generation service does is an input of the model: \<open>fetch\<close> rejects with an
  error message; or the response is not \<open>ok\<close> and \<open>response.json()\<close> either rejects
  with a message or gives an object whose \<open>detail\<close> is absent or a text; or the
  response is \<open>ok\<close> and \<open>response.blob()\<close> either rejects or gives a blob, for which
  \<open>createObjectURL\<close> returns a URL.
\<close>

datatype error_body = BadJson string | Body "string option"

datatype response =
    FetchRejected string
  | NotOk error_body
  | OkBlobRejected string
  | Ok string

record pending =
  originalText :: string
  sent :: "(string \<times> payload_value) list"

definition spinner :: string where
  \<open>spinner = ''<i class="fa-solid fa-spinner fa-spin"></i> Generating...''\<close>

text \<open>
  \<open>generateDocument\<close> runs up to the \<open>await fetch\<close> (\<open>generate_begin\<close>), is suspended
  while the request is in flight, and resumes with the response (\<open>generate_end\<close>).
  \<open>now\<close> is the value of \<open>Date.now()\<close>.
\<close>

definition generate_begin :: "app \<Rightarrow> app \<times> pending" where
  "generate_begin a =
     (let a1 = a\<lparr>btn_innerHTML := spinner, btn_disabled := True\<rparr>
      in (a1, \<lparr>originalText = btn_innerHTML a, sent = payload a1\<rparr>))"

definition error_message :: "response \<Rightarrow> string option" where
  "error_message r =
     (case r of
        FetchRejected m \<Rightarrow> Some m
      | NotOk (BadJson m) \<Rightarrow> Some m
      | NotOk (Body None) \<Rightarrow> Some ''Generation failed''
      | NotOk (Body (Some d)) \<Rightarrow> Some (if truthy d then d else ''Generation failed'')
      | OkBlobRejected m \<Rightarrow> Some m
      | Ok url \<Rightarrow> None)"

definition sent_doc_type :: "pending \<Rightarrow> string" where
  "sent_doc_type p =
     (case map_of (sent p) ''doc_type'' of Some (PText t) \<Rightarrow> t | _ \<Rightarrow> ''undefined'')"

definition generate_end :: "pending \<Rightarrow> response \<Rightarrow> nat \<Rightarrow> app \<Rightarrow> app" where
  "generate_end p r now a =
     (let a' = (case r of
                  Ok url \<Rightarrow>
                    a\<lparr>pdf_href := url,
                      pdf_download := sent_doc_type p @ ''_'' @ decimal now @ ''.pdf'',
                      display := (display a)(''download-docx'' := ''none'',
                                             ''result-area'' := ''block'')\<rparr>
                | _ \<Rightarrow> alert (''Error: '' @ the (error_message r)) a)
      in a'\<lparr>btn_innerHTML := originalText p, btn_disabled := False\<rparr>)"

definition generateDocument :: "app \<Rightarrow> response \<Rightarrow> nat \<Rightarrow> app" where
  "generateDocument a r now =
     (case generate_begin a of (a1, p) \<Rightarrow> generate_end p r now a1)"

section \<open>Runs of the page\<close>

text \<open>
  The page is driven by events: the five add buttons, the edit and remove buttons that
  \<open>renderList\<close> emits, and the generate button. An \<open>editItem\<close> that throws ends its
  handler before anything is written, so the page is as before. \<open>Elsewhere b\<close> stands
  for everything that does not write \<open>state\<close> (typing into an input, \<open>switchMode\<close>,
  the \<open>doc-type\<close> listener): the page becomes \<open>b\<close>, with the collections it had.
\<close>

datatype event =
    AddSkill
  | AddAch
  | AddExp
  | AddProj
  | AddEdu
  | EditItem string int
  | RemoveItem string int
  | GenerateDocument response nat
  | Elsewhere app

fun step :: "event \<Rightarrow> app \<Rightarrow> app" where
  "step AddSkill a = addSkill a"
| "step AddAch a = addAch a"
| "step AddExp a = addExp a"
| "step AddProj a = addProj a"
| "step AddEdu a = addEdu a"
| "step (EditItem listId index) a =
     (case editItem listId index a of Inl e \<Rightarrow> a | Inr a' \<Rightarrow> a')"
| "step (RemoveItem listId index) a = removeItem listId index a"
| "step (GenerateDocument r now) a = generateDocument a r now"
| "step (Elsewhere b) a = b\<lparr>state := state a\<rparr>"

definition run :: "event list \<Rightarrow> app \<Rightarrow> app" where
  "run evs a = foldl (\<lambda>a e. step e a) a evs"

text \<open>When the script is loaded the five collections are empty.\<close>

definition initial :: "app \<Rightarrow> bool" where
  "initial a =
     (state a = \<lparr>skills = [], experience = [], projects = [], education = [],
                 achievements = []\<rparr>)"

section \<open>Notions used to state the properties\<close>

text \<open>A text is blank when it has only white space; \<open>trim\<close> of it is then empty.\<close>

definition blank :: "string \<Rightarrow> bool" where
  "blank s = list_all is_ws s"

definition no_surrounding_ws :: "string \<Rightarrow> bool" where
  "no_surrounding_ws s = (s = [] \<or> (\<not> is_ws (hd s) \<and> \<not> is_ws (last s)))"


text \<open>What the add functions store: the shape every item of a run has.\<close>

definition wf_text :: "string \<Rightarrow> bool" where
  "wf_text s = (s \<noteq> [] \<and> no_surrounding_ws s)"

definition wf_experience :: "experience_entry \<Rightarrow> bool" where
  "wf_experience e =
     (wf_text (title e) \<and> wf_text (company e) \<and> no_surrounding_ws (period e) \<and>
      list_all (\<lambda>b. newline \<notin> set b \<and> \<not> blank b) (bullets e))"

definition wf_project :: "project_entry \<Rightarrow> bool" where
  "wf_project p =
     (wf_text (name p) \<and> no_surrounding_ws (tech_stack p) \<and>
      no_surrounding_ws (description p))"

definition wf_education :: "education_entry \<Rightarrow> bool" where
  "wf_education e =
     (wf_text (degree e) \<and> no_surrounding_ws (institute e) \<and>
      no_surrounding_ws (year e) \<and> no_surrounding_ws (grade e))"

definition wf_collections :: "collections \<Rightarrow> bool" where
  "wf_collections c =
     (list_all wf_text (skills c) \<and> list_all wf_experience (experience c) \<and>
      list_all wf_project (projects c) \<and> list_all wf_education (education c) \<and>
      list_all wf_text (achievements c))"

text \<open>
  The collection behind a list container, as \<open>refreshLists\<close>, \<open>editItem\<close> and
  \<open>removeItem\<close> pair them, with the items of the five collections in one type.
\<close>

datatype item =
    SkillItem string
  | ExperienceItem experience_entry
  | ProjectItem project_entry
  | EducationItem education_entry
  | AchievementItem string

definition list_ids :: "string list" where
  "list_ids = [''skills-list'', ''experience-list'', ''project-list'', ''edu-list'',
               ''ach-list'']"

definition collection_of :: "string \<Rightarrow> collections \<Rightarrow> item list" where
  "collection_of listId c =
     (if listId = ''skills-list'' then map SkillItem (skills c)
      else if listId = ''experience-list'' then map ExperienceItem (experience c)
      else if listId = ''project-list'' then map ProjectItem (projects c)
      else if listId = ''edu-list'' then map EducationItem (education c)
      else if listId = ''ach-list'' then map AchievementItem (achievements c)
      else [])"

text \<open>
  The keys of section 4.2 of the specification, written from its words, to be compared
  with the keys that \<open>payload_fields\<close> builds.
\<close>

definition doc_types :: "string list" where
  "doc_types = [''resume'', ''sop'', ''letter'', ''contract'', ''report'']"

definition base_keys :: "string list" where
  "base_keys = [''name'', ''email'', ''phone'', ''location'']"

definition schema_keys :: "string \<Rightarrow> string list" where
  "schema_keys t =
     (if t = ''resume'' then
        [''summary'', ''skills'', ''experience_list'', ''education'', ''projects'',
         ''achievements'']
      else if t = ''sop'' then
        [''applicant_name'', ''intro'', ''academic_background'', ''research_experience'',
         ''why_program'', ''career_goals'', ''conclusion'']
      else if t = ''letter'' then
        [''sender_name'', ''sender_address'', ''receiver_name'', ''receiver_address'',
         ''receiver_salutation'', ''subject'', ''date'', ''body'']
      else if t = ''contract'' then
        [''party_a'', ''party_b'', ''date_a'', ''date_b'', ''scope'', ''responsibilities'',
         ''payment_terms'', ''confidentiality_clause'', ''termination_clause'']
      else if t = ''report'' then
        [''title'', ''author'', ''date'', ''executive_summary'', ''objectives'',
         ''methodology'', ''findings'', ''recommendations'', ''conclusion'']
      else [])"

text \<open>
  The top-level fields of \<open>GenerationPayload\<close> as section 3 of the specification names
  them.
\<close>

definition spec_payload_keys :: "string list" where
  "spec_payload_keys = [''doc_type'', ''use_ai'', ''ai_context'', ''fields'', ''return_docx'']"

section \<open>Pages used as examples\<close>

definition page0 :: app where
  "page0 =
     \<lparr>state = \<lparr>skills = [], experience = [], projects = [], education = [],
                achievements = []\<rparr>,
      currentMode = ''manual'',
      elem_value = (\<lambda>i. ''''),
      display = (\<lambda>i. ''''),
      alerts = [],
      btn_innerHTML = ''Generate Document'',
      btn_disabled = False,
      pdf_href = '''',
      pdf_download = ''''\<rparr>"

definition typed :: "(string \<times> string) list \<Rightarrow> app \<Rightarrow> app" where
  "typed kvs a = foldl (\<lambda>a (i, v). set_value i v a) a kvs"

text \<open>
  \<open>page1\<close>: the skill \<open>Python\<close> has been added, and the inputs of all five forms are
  filled in. \<open>page2\<close>: the five add buttons have then been pressed.
\<close>

definition page1 :: app where
  "page1 =
     typed [(''new-skill'', '' Go ''), (''new-ach'', ''Won a prize''),
            (''exp-title'', ''Engineer''), (''exp-company'', ''Acme''),
            (''exp-period'', ''2020-2022''),
            (''exp-bullets'', ''Built X'' @ [newline] @ ''  '' @ [newline] @ ''Shipped Y''),
            (''proj-name'', ''DocGen''), (''proj-stack'', ''JS''),
            (''edu-degree'', ''BSc''), (''edu-institute'', ''MIT''), (''edu-year'', ''2019'')]
       (run [AddSkill] (typed [(''new-skill'', ''Python'')] page0))"

definition page2 :: app where
  "page2 = run [AddSkill, AddAch, AddExp, AddProj, AddEdu] page1"

section \<open>Strings and arrays\<close>

lemma dropWhile_all_iff: "(\<forall>x\<in>set (dropWhile P s). P x) \<longleftrightarrow> (\<forall>x\<in>set s. P x)"
proof
  assume h: "\<forall>x\<in>set (dropWhile P s). P x"
  have "dropWhile P s = []"
  proof (rule ccontr)
    assume n: "dropWhile P s \<noteq> []"
    then have "\<not> P (hd (dropWhile P s))" by (rule hd_dropWhile)
    moreover have "hd (dropWhile P s) \<in> set (dropWhile P s)" using n by simp
    ultimately show False using h by blast
  qed
  then show "\<forall>x\<in>set s. P x" by (simp add: dropWhile_eq_Nil_conv)
next
  assume "\<forall>x\<in>set s. P x"
  then show "\<forall>x\<in>set (dropWhile P s). P x" by (blast dest: set_dropWhileD)
qed

lemma trim_Nil_iff: "trim s = [] \<longleftrightarrow> blank s"
  by (simp add: trim_def blank_def dropWhile_eq_Nil_conv dropWhile_all_iff list_all_iff)

lemma last_dropWhile_self: "dropWhile P xs \<noteq> [] \<Longrightarrow> last (dropWhile P xs) = last xs"
  by (metis last_appendR takeWhile_dropWhile_id)

lemma trim_last: "trim s \<noteq> [] \<Longrightarrow> \<not> is_ws (last (trim s))"
proof -
  assume n: "trim s \<noteq> []"
  let ?u = "dropWhile is_ws (rev (dropWhile is_ws s))"
  from n have u: "?u \<noteq> []" by (simp add: trim_def)
  have "last (trim s) = hd ?u" using u by (simp add: trim_def last_rev)
  then show ?thesis using hd_dropWhile [OF u] by simp
qed

lemma trim_hd: "trim s \<noteq> [] \<Longrightarrow> \<not> is_ws (hd (trim s))"
proof -
  assume n: "trim s \<noteq> []"
  let ?t = "dropWhile is_ws s"
  let ?u = "dropWhile is_ws (rev ?t)"
  from n have u: "?u \<noteq> []" by (simp add: trim_def)
  have t: "?t \<noteq> []"
  proof
    assume e: "?t = []"
    have "?u = []" unfolding e by simp
    with u show False by blast
  qed
  have "hd (trim s) = last ?u" using u by (simp add: trim_def hd_rev)
  also have "\<dots> = last (rev ?t)" using u by (rule last_dropWhile_self)
  also have "\<dots> = hd ?t" using t by (simp add: last_rev)
  finally show ?thesis using hd_dropWhile [OF t] by simp
qed

lemma trim_no_surrounding: "no_surrounding_ws (trim s)"
  using trim_hd [of s] trim_last [of s] by (auto simp: no_surrounding_ws_def)

lemma trim_fixed: "no_surrounding_ws s \<Longrightarrow> trim s = s"
proof (cases "s = []")
  case True
  then show ?thesis by (simp add: trim_def)
next
  case False
  assume "no_surrounding_ws s"
  with False have h: "\<not> is_ws (hd s)" and l: "\<not> is_ws (last s)"
    by (auto simp: no_surrounding_ws_def)
  from False h have 1: "dropWhile is_ws s = s" by (cases s) auto
  from False l have "\<not> is_ws (hd (rev s))" by (simp add: hd_rev)
  with False have 2: "dropWhile is_ws (rev s) = rev s" by (cases "rev s") auto
  show ?thesis by (simp add: trim_def 1 2)
qed

lemma split_no_sep: "sep \<notin> set s \<Longrightarrow> js_split sep s = [s]"
  by (induction s) auto

lemma split_append: "sep \<notin> set x \<Longrightarrow> js_split sep (x @ sep # r) = x # js_split sep r"
  by (induction x) auto

lemma split_join:
  "bs \<noteq> [] \<Longrightarrow> \<forall>b\<in>set bs. sep \<notin> set b \<Longrightarrow> js_split sep (js_join [sep] bs) = bs"
  by (induction "[sep]" bs rule: js_join.induct) (auto simp: split_no_sep split_append)

lemma split_parts_no_sep: "\<forall>x\<in>set (js_split sep s). sep \<notin> set x"
  by (induction s) (auto split: list.splits)

lemma bullets_roundtrip:
  assumes "list_all (\<lambda>b. sep \<notin> set b \<and> \<not> blank b) bs"
  shows "filter (\<lambda>x. truthy (trim x)) (js_split sep (js_join [sep] bs)) = bs"
proof (cases "bs = []")
  case True
  then show ?thesis by (simp add: truthy_def trim_def)
next
  case False
  from assms have h: "\<forall>b\<in>set bs. sep \<notin> set b \<and> truthy (trim b)"
    by (simp add: list_all_iff truthy_def trim_Nil_iff)
  then have "js_split sep (js_join [sep] bs) = bs" using False by (simp add: split_join)
  then show ?thesis using h by (simp add: filter_id_conv)
qed

lemma js_splice_valid:
  "k < length xs \<Longrightarrow> js_splice xs (int k) 1 = take k xs @ drop (Suc k) xs"
  by (simp add: js_splice_def Let_def min_def max_def nat_add_distrib)


lemma js_index_valid: "k < length xs \<Longrightarrow> js_index xs (int k) = Some (xs ! k)"
  by (simp add: js_index_def)


section \<open>Evaluating the example pages\<close>

lemmas eval_defs = page0_def page1_def page2_def typed_def run_def set_value_def alert_def
  addSkill_def addAch_def addExp_def addProj_def addEdu_def Let_def truthy_def trim_def
  is_ws_def newline_def

lemma page1_state:
  "state page1 = \<lparr>skills = [''Python''], experience = [], projects = [], education = [],
                achievements = []\<rparr>"
  by (simp add: eval_defs)

lemma page1_values:
  "elem_value page1 ''new-skill'' = '' Go ''"
  "elem_value page1 ''new-ach'' = ''Won a prize''"
  "elem_value page1 ''exp-title'' = ''Engineer''"
  "elem_value page1 ''exp-company'' = ''Acme''"
  "elem_value page1 ''exp-period'' = ''2020-2022''"
  "elem_value page1 ''exp-bullets'' = ''Built X'' @ [newline] @ ''  '' @ [newline] @ ''Shipped Y''"
  "elem_value page1 ''proj-name'' = ''DocGen''"
  "elem_value page1 ''proj-stack'' = ''JS''"
  "elem_value page1 ''proj-desc'' = ''''"
  "elem_value page1 ''edu-degree'' = ''BSc''"
  "elem_value page1 ''edu-institute'' = ''MIT''"
  "elem_value page1 ''edu-year'' = ''2019''"
  "elem_value page1 ''edu-grade'' = ''''"
  by (simp_all add: eval_defs)

lemma page2_state:
  "state page2 =
     \<lparr>skills = [''Python'', ''Go''],
      experience = [\<lparr>title = ''Engineer'', company = ''Acme'', period = ''2020-2022'',
                     bullets = [''Built X'', ''Shipped Y'']\<rparr>],
      projects = [\<lparr>name = ''DocGen'', tech_stack = ''JS'', description = ''''\<rparr>],
      education = [\<lparr>degree = ''BSc'', institute = ''MIT'', year = ''2019'', grade = ''''\<rparr>],
      achievements = [''Won a prize'']\<rparr>"
  by (simp add: eval_defs)

section \<open>The collections behind the list containers\<close>

lemma collection_of_simps:
  "collection_of ''skills-list'' c = map SkillItem (skills c)"
  "collection_of ''experience-list'' c = map ExperienceItem (experience c)"
  "collection_of ''project-list'' c = map ProjectItem (projects c)"
  "collection_of ''edu-list'' c = map EducationItem (education c)"
  "collection_of ''ach-list'' c = map AchievementItem (achievements c)"
  by (simp_all add: collection_of_def)

lemma collection_of_update:
  "other \<noteq> ''skills-list'' \<Longrightarrow> collection_of other (c\<lparr>skills := s\<rparr>) = collection_of other c"
  "other \<noteq> ''experience-list'' \<Longrightarrow>
     collection_of other (c\<lparr>experience := e\<rparr>) = collection_of other c"
  "other \<noteq> ''project-list'' \<Longrightarrow> collection_of other (c\<lparr>projects := p\<rparr>) = collection_of other c"
  "other \<noteq> ''edu-list'' \<Longrightarrow> collection_of other (c\<lparr>education := d\<rparr>) = collection_of other c"
  "other \<noteq> ''ach-list'' \<Longrightarrow>
     collection_of other (c\<lparr>achievements := h\<rparr>) = collection_of other c"
  by (simp_all add: collection_of_def)

lemma removeItem_state:
  "state (removeItem ''skills-list'' i a) =
     (state a)\<lparr>skills := js_splice (skills (state a)) i 1\<rparr>"
  "state (removeItem ''experience-list'' i a) =
     (state a)\<lparr>experience := js_splice (experience (state a)) i 1\<rparr>"
  "state (removeItem ''project-list'' i a) =
     (state a)\<lparr>projects := js_splice (projects (state a)) i 1\<rparr>"
  "state (removeItem ''edu-list'' i a) =
     (state a)\<lparr>education := js_splice (education (state a)) i 1\<rparr>"
  "state (removeItem ''ach-list'' i a) =
     (state a)\<lparr>achievements := js_splice (achievements (state a)) i 1\<rparr>"
  by (simp_all add: removeItem_def)

lemma list_ids_disj:
  "listId \<in> set list_ids \<Longrightarrow>
   listId = ''skills-list'' \<or> listId = ''experience-list'' \<or> listId = ''project-list'' \<or>
   listId = ''edu-list'' \<or> listId = ''ach-list''"
  by (simp add: list_ids_def)

section \<open>Properties of the collection store\<close>

text \<open>
  C7. An add whose required inputs are not blank appends the item built from the inputs
  at the last position of its collection: the collection grows by exactly one, the items
  stored before keep their positions, and the other four collections are as before.
\<close>

theorem add_appends_at_end:
  "(truthy (trim (elem_value a ''new-skill'')) \<longrightarrow>
      state (addSkill a) =
        (state a)\<lparr>skills := skills (state a) @ [trim (elem_value a ''new-skill'')]\<rparr>) \<and>
   (truthy (trim (elem_value a ''new-ach'')) \<longrightarrow>
      state (addAch a) =
        (state a)\<lparr>achievements :=
           achievements (state a) @ [trim (elem_value a ''new-ach'')]\<rparr>) \<and>
   (truthy (trim (elem_value a ''exp-title'')) \<and> truthy (trim (elem_value a ''exp-company'')) \<longrightarrow>
      state (addExp a) =
        (state a)\<lparr>experience := experience (state a) @
           [\<lparr>title = trim (elem_value a ''exp-title''),
             company = trim (elem_value a ''exp-company''),
             period = trim (elem_value a ''exp-period''),
             bullets = filter (\<lambda>x. truthy (trim x))
                         (js_split newline (elem_value a ''exp-bullets''))\<rparr>]\<rparr>) \<and>
   (truthy (trim (elem_value a ''proj-name'')) \<longrightarrow>
      state (addProj a) =
        (state a)\<lparr>projects := projects (state a) @
           [\<lparr>name = trim (elem_value a ''proj-name''),
             tech_stack = trim (elem_value a ''proj-stack''),
             description = trim (elem_value a ''proj-desc'')\<rparr>]\<rparr>) \<and>
   (truthy (trim (elem_value a ''edu-degree'')) \<longrightarrow>
      state (addEdu a) =
        (state a)\<lparr>education := education (state a) @
           [\<lparr>degree = trim (elem_value a ''edu-degree''),
             institute = trim (elem_value a ''edu-institute''),
             year = trim (elem_value a ''edu-year''),
             grade = trim (elem_value a ''edu-grade'')\<rparr>]\<rparr>)"
  by (simp add: addSkill_def addAch_def addExp_def addProj_def addEdu_def Let_def
      set_value_def)

theorem add_appends_at_end_witness:
  "truthy (trim (elem_value page1 ''new-skill'')) \<and>
   truthy (trim (elem_value page1 ''new-ach'')) \<and>
   truthy (trim (elem_value page1 ''exp-title'')) \<and>
   truthy (trim (elem_value page1 ''exp-company'')) \<and>
   truthy (trim (elem_value page1 ''proj-name'')) \<and>
   truthy (trim (elem_value page1 ''edu-degree'')) \<and>
   skills (state (addSkill page1)) = [''Python'', ''Go''] \<and>
   achievements (state (addAch page1)) = [''Won a prize''] \<and>
   experience (state (addExp page1)) =
     [\<lparr>title = ''Engineer'', company = ''Acme'', period = ''2020-2022'',
       bullets = [''Built X'', ''Shipped Y'']\<rparr>] \<and>
   projects (state (addProj page1)) =
     [\<lparr>name = ''DocGen'', tech_stack = ''JS'', description = ''''\<rparr>] \<and>
   education (state (addEdu page1)) =
     [\<lparr>degree = ''BSc'', institute = ''MIT'', year = ''2019'', grade = ''''\<rparr>]"
  using add_appends_at_end [of page1]
  by (simp add: page1_values page1_state truthy_def trim_def is_ws_def newline_def)

text \<open>
  C8. Removing at a valid index \<open>k\<close> deletes exactly the item at position \<open>k\<close> of the
  named collection: what is left is the items before \<open>k\<close> followed by the items after
  \<open>k\<close>, in their order, so the length drops by one; the other collections are as
  before.
\<close>

theorem remove_deletes_exactly_one:
  assumes "listId \<in> set list_ids" and "k < length (collection_of listId (state a))"
  shows "collection_of listId (state (removeItem listId (int k) a)) =
           take k (collection_of listId (state a)) @
           drop (Suc k) (collection_of listId (state a)) \<and>
         length (collection_of listId (state (removeItem listId (int k) a))) =
           length (collection_of listId (state a)) - 1 \<and>
         (\<forall>other. other \<noteq> listId \<longrightarrow>
            collection_of other (state (removeItem listId (int k) a)) =
            collection_of other (state a))"
  using list_ids_disj [OF assms(1)]
proof (elim disjE)
  assume 1: "listId = ''skills-list''"
  with assms(2) have "k < length (skills (state a))" by (simp add: collection_of_simps)
  then show ?thesis unfolding 1
    by (simp add: removeItem_state collection_of_simps collection_of_update js_splice_valid
        take_map drop_map)
next
  assume 2: "listId = ''experience-list''"
  with assms(2) have "k < length (experience (state a))" by (simp add: collection_of_simps)
  then show ?thesis unfolding 2
    by (simp add: removeItem_state collection_of_simps collection_of_update js_splice_valid
        take_map drop_map)
next
  assume 3: "listId = ''project-list''"
  with assms(2) have "k < length (projects (state a))" by (simp add: collection_of_simps)
  then show ?thesis unfolding 3
    by (simp add: removeItem_state collection_of_simps collection_of_update js_splice_valid
        take_map drop_map)
next
  assume 4: "listId = ''edu-list''"
  with assms(2) have "k < length (education (state a))" by (simp add: collection_of_simps)
  then show ?thesis unfolding 4
    by (simp add: removeItem_state collection_of_simps collection_of_update js_splice_valid
        take_map drop_map)
next
  assume 5: "listId = ''ach-list''"
  with assms(2) have "k < length (achievements (state a))" by (simp add: collection_of_simps)
  then show ?thesis unfolding 5
    by (simp add: removeItem_state collection_of_simps collection_of_update js_splice_valid
        take_map drop_map)
qed

theorem remove_deletes_exactly_one_witness:
  "''skills-list'' \<in> set list_ids \<and>
   0 < length (collection_of ''skills-list'' (state page2)) \<and>
   collection_of ''skills-list'' (state page2) = [SkillItem ''Python'', SkillItem ''Go''] \<and>
   collection_of ''skills-list'' (state (removeItem ''skills-list'' 0 page2)) =
     [SkillItem ''Go''] \<and>
   collection_of ''ach-list'' (state (removeItem ''skills-list'' 0 page2)) =
     [AchievementItem ''Won a prize'']"
proof -
  have h: "''skills-list'' \<in> set list_ids"
    by (simp add: list_ids_def)
  have k: "0 < length (collection_of ''skills-list'' (state page2))"
    by (simp add: collection_of_simps page2_state)
  note r = remove_deletes_exactly_one [OF h k]
  from r have 1: "collection_of ''skills-list'' (state (removeItem ''skills-list'' 0 page2)) =
      [SkillItem ''Go'']"
    by (simp add: collection_of_simps page2_state)
  from r have "\<forall>other. other \<noteq> ''skills-list'' \<longrightarrow>
      collection_of other (state (removeItem ''skills-list'' 0 page2)) =
      collection_of other (state page2)"
    by simp
  then have "''ach-list'' \<noteq> ''skills-list'' \<longrightarrow>
      collection_of ''ach-list'' (state (removeItem ''skills-list'' 0 page2)) =
      collection_of ''ach-list'' (state page2)"
    by (rule spec)
  then have 2: "collection_of ''ach-list'' (state (removeItem ''skills-list'' 0 page2)) =
      [AchievementItem ''Won a prize'']"
    by (simp add: collection_of_simps page2_state)
  show ?thesis using h k 1 2 by (simp add: collection_of_simps page2_state)
qed

section \<open>What \<open>trim\<close> removes\<close>

lemma trim_decompose:
  "s = takeWhile is_ws s @ trim s @ rev (takeWhile is_ws (rev (dropWhile is_ws s)))"
proof -
  let ?t = "dropWhile is_ws s"
  have "rev (dropWhile is_ws (rev ?t)) @ rev (takeWhile is_ws (rev ?t)) = rev (rev ?t)"
    by (simp only: rev_append [symmetric] takeWhile_dropWhile_id)
  then have "trim s @ rev (takeWhile is_ws (rev ?t)) = ?t"
    by (simp add: trim_def)
  moreover have "s = takeWhile is_ws s @ ?t"
    by simp
  ultimately show ?thesis
    by simp
qed

lemma trim_removes_ends: "\<exists>l r. blank l \<and> blank r \<and> s = l @ trim s @ r"
proof -
  have "blank (takeWhile is_ws s)"
    by (auto simp: blank_def list_all_iff dest: set_takeWhileD)
  moreover have "blank (rev (takeWhile is_ws (rev (dropWhile is_ws s))))"
    by (auto simp: blank_def list_all_iff dest: set_takeWhileD)
  ultimately show ?thesis
    using trim_decompose [of s] by blast
qed

lemma truthy_trim: "truthy (trim s) \<longleftrightarrow> \<not> blank s"
  by (simp add: truthy_def trim_Nil_iff)

text \<open>
  C9. Every scalar that an add stores is \<open>trim\<close> of the input: the input without the
  white space at its two ends, so it has none there. A required input that is blank
  (empty or only white space) is rejected: nothing is stored. The bullets of an
  experience are the lines of the input that are not blank, each kept as it is.
\<close>

theorem stored_scalars_are_trimmed:
  "skills (state (addSkill a)) =
     skills (state a) @
       (if blank (elem_value a ''new-skill'') then []
        else [trim (elem_value a ''new-skill'')]) \<and>
   achievements (state (addAch a)) =
     achievements (state a) @
       (if blank (elem_value a ''new-ach'') then []
        else [trim (elem_value a ''new-ach'')]) \<and>
   experience (state (addExp a)) =
     experience (state a) @
       (if blank (elem_value a ''exp-title'') \<or> blank (elem_value a ''exp-company'') then []
        else [\<lparr>title = trim (elem_value a ''exp-title''),
               company = trim (elem_value a ''exp-company''),
               period = trim (elem_value a ''exp-period''),
               bullets = filter (\<lambda>line. \<not> blank line)
                           (js_split newline (elem_value a ''exp-bullets''))\<rparr>]) \<and>
   projects (state (addProj a)) =
     projects (state a) @
       (if blank (elem_value a ''proj-name'') then []
        else [\<lparr>name = trim (elem_value a ''proj-name''),
               tech_stack = trim (elem_value a ''proj-stack''),
               description = trim (elem_value a ''proj-desc'')\<rparr>]) \<and>
   education (state (addEdu a)) =
     education (state a) @
       (if blank (elem_value a ''edu-degree'') then []
        else [\<lparr>degree = trim (elem_value a ''edu-degree''),
               institute = trim (elem_value a ''edu-institute''),
               year = trim (elem_value a ''edu-year''),
               grade = trim (elem_value a ''edu-grade'')\<rparr>]) \<and>
   (\<exists>l r. blank l \<and> blank r \<and> s = l @ trim s @ r) \<and>
   no_surrounding_ws (trim s)"
proof -
  have 1: "skills (state (addSkill a)) =
     skills (state a) @
       (if blank (elem_value a ''new-skill'') then []
        else [trim (elem_value a ''new-skill'')])"
    by (simp add: addSkill_def Let_def set_value_def truthy_trim)
  have 2: "achievements (state (addAch a)) =
     achievements (state a) @
       (if blank (elem_value a ''new-ach'') then []
        else [trim (elem_value a ''new-ach'')])"
    by (simp add: addAch_def Let_def set_value_def truthy_trim)
  have 3: "experience (state (addExp a)) =
     experience (state a) @
       (if blank (elem_value a ''exp-title'') \<or> blank (elem_value a ''exp-company'') then []
        else [\<lparr>title = trim (elem_value a ''exp-title''),
               company = trim (elem_value a ''exp-company''),
               period = trim (elem_value a ''exp-period''),
               bullets = filter (\<lambda>line. \<not> blank line)
                           (js_split newline (elem_value a ''exp-bullets''))\<rparr>])"
    by (simp add: addExp_def Let_def set_value_def alert_def truthy_trim)
  have 4: "projects (state (addProj a)) =
     projects (state a) @
       (if blank (elem_value a ''proj-name'') then []
        else [\<lparr>name = trim (elem_value a ''proj-name''),
               tech_stack = trim (elem_value a ''proj-stack''),
               description = trim (elem_value a ''proj-desc'')\<rparr>])"
    by (simp add: addProj_def Let_def set_value_def alert_def truthy_trim)
  have 5: "education (state (addEdu a)) =
     education (state a) @
       (if blank (elem_value a ''edu-degree'') then []
        else [\<lparr>degree = trim (elem_value a ''edu-degree''),
               institute = trim (elem_value a ''edu-institute''),
               year = trim (elem_value a ''edu-year''),
               grade = trim (elem_value a ''edu-grade'')\<rparr>])"
    by (simp add: addEdu_def Let_def set_value_def alert_def truthy_trim)
  show ?thesis
    by (intro conjI 1 2 3 4 5 trim_removes_ends trim_no_surrounding)
qed

theorem stored_scalars_are_trimmed_witness:
  "\<not> blank (elem_value page1 ''new-skill'') \<and>
   skills (state (addSkill page1)) = [''Python'', ''Go''] \<and>
   blank (elem_value page0 ''new-skill'') \<and>
   skills (state (addSkill page0)) = [] \<and>
   bullets (last (experience (state (addExp page1)))) = [''Built X'', ''Shipped Y''] \<and>
   trim '' a b  '' = ''a b'' \<and>
   no_surrounding_ws (trim '' a b  '')"
  using stored_scalars_are_trimmed [of page1 "'' a b  ''"]
    stored_scalars_are_trimmed [of page0 "'' a b  ''"]
  by (simp add: page1_values page1_state blank_def is_ws_def trim_def newline_def page0_def)

text \<open>
  C5, as the claim states it, fails for skills and achievements: \<open>addSkill\<close> and
  \<open>addAch\<close> have no \<open>else\<close> branch, so an empty input is rejected without any
  message. On the freshly loaded page, whose inputs are empty, both leave the page
  exactly as it was, with no alert shown.
\<close>

theorem add_skill_rejects_silently:
  "blank (elem_value page0 ''new-skill'') \<and> blank (elem_value page0 ''new-ach'') \<and>
   addSkill page0 = page0 \<and> alerts (addSkill page0) = [] \<and>
   addAch page0 = page0 \<and> alerts (addAch page0) = []"
  by (simp add: page0_def addSkill_def addAch_def Let_def truthy_def trim_def blank_def)

text \<open>
  C5, amended. An add whose required input is blank mutates no collection. For an
  experience (title or company blank), a project (name blank) and an education (degree
  blank) a message is shown; for a skill and an achievement the page is left exactly as
  it was and no message is shown.
\<close>

theorem rejected_add_mutates_nothing:
  "(blank (elem_value a ''new-skill'') \<longrightarrow> addSkill a = a) \<and>
   (blank (elem_value a ''new-ach'') \<longrightarrow> addAch a = a) \<and>
   (blank (elem_value a ''exp-title'') \<or> blank (elem_value a ''exp-company'') \<longrightarrow>
      state (addExp a) = state a \<and>
      alerts (addExp a) = alerts a @ [''Job Title and Company are required.'']) \<and>
   (blank (elem_value a ''proj-name'') \<longrightarrow>
      state (addProj a) = state a \<and>
      alerts (addProj a) = alerts a @ [''Project Name is required.'']) \<and>
   (blank (elem_value a ''edu-degree'') \<longrightarrow>
      state (addEdu a) = state a \<and>
      alerts (addEdu a) = alerts a @ [''Degree is required.''])"
proof -
  have 1: "blank (elem_value a ''new-skill'') \<longrightarrow> addSkill a = a"
    by (simp add: addSkill_def Let_def truthy_trim)
  have 2: "blank (elem_value a ''new-ach'') \<longrightarrow> addAch a = a"
    by (simp add: addAch_def Let_def truthy_trim)
  have 3: "blank (elem_value a ''exp-title'') \<or> blank (elem_value a ''exp-company'') \<longrightarrow>
      state (addExp a) = state a \<and>
      alerts (addExp a) = alerts a @ [''Job Title and Company are required.'']"
    by (simp add: addExp_def Let_def alert_def truthy_trim)
  have 4: "blank (elem_value a ''proj-name'') \<longrightarrow>
      state (addProj a) = state a \<and>
      alerts (addProj a) = alerts a @ [''Project Name is required.'']"
    by (simp add: addProj_def Let_def alert_def truthy_trim)
  have 5: "blank (elem_value a ''edu-degree'') \<longrightarrow>
      state (addEdu a) = state a \<and>
      alerts (addEdu a) = alerts a @ [''Degree is required.'']"
    by (simp add: addEdu_def Let_def alert_def truthy_trim)
  show ?thesis
    by (intro conjI 1 2 3 4 5)
qed

theorem rejected_add_mutates_nothing_witness:
  "blank (elem_value page0 ''new-skill'') \<and> blank (elem_value page0 ''new-ach'') \<and>
   blank (elem_value page0 ''exp-title'') \<and> blank (elem_value page0 ''proj-name'') \<and>
   blank (elem_value page0 ''edu-degree'') \<and>
   addSkill page0 = page0 \<and> addAch page0 = page0 \<and>
   state (addExp page0) = state page0 \<and>
   alerts (addExp page0) = [''Job Title and Company are required.''] \<and>
   state (addProj page0) = state page0 \<and>
   alerts (addProj page0) = [''Project Name is required.''] \<and>
   state (addEdu page0) = state page0 \<and>
   alerts (addEdu page0) = [''Degree is required.'']"
proof -
  have b: "blank (elem_value page0 i)" for i
    by (simp add: page0_def blank_def)
  have e: "alerts page0 = []"
    by (simp add: page0_def)
  show ?thesis
    using rejected_add_mutates_nothing [of page0] by (simp add: b e)
qed

text \<open>
  C10. An add that stores an item resets to the empty text exactly the inputs the item
  was built from; an add that is rejected writes to no input.
\<close>

theorem add_resets_inputs:
  "elem_value (addSkill a) =
     (if blank (elem_value a ''new-skill'') then elem_value a
      else (elem_value a)(''new-skill'' := '''')) \<and>
   elem_value (addAch a) =
     (if blank (elem_value a ''new-ach'') then elem_value a
      else (elem_value a)(''new-ach'' := '''')) \<and>
   elem_value (addExp a) =
     (if blank (elem_value a ''exp-title'') \<or> blank (elem_value a ''exp-company'')
      then elem_value a
      else (elem_value a)(''exp-title'' := '''', ''exp-company'' := '''',
             ''exp-period'' := '''', ''exp-bullets'' := '''')) \<and>
   elem_value (addProj a) =
     (if blank (elem_value a ''proj-name'') then elem_value a
      else (elem_value a)(''proj-name'' := '''', ''proj-stack'' := '''',
             ''proj-desc'' := '''')) \<and>
   elem_value (addEdu a) =
     (if blank (elem_value a ''edu-degree'') then elem_value a
      else (elem_value a)(''edu-degree'' := '''', ''edu-institute'' := '''',
             ''edu-year'' := '''', ''edu-grade'' := ''''))"
proof -
  have 1: "elem_value (addSkill a) =
     (if blank (elem_value a ''new-skill'') then elem_value a
      else (elem_value a)(''new-skill'' := ''''))"
    by (simp add: addSkill_def Let_def set_value_def truthy_trim)
  have 2: "elem_value (addAch a) =
     (if blank (elem_value a ''new-ach'') then elem_value a
      else (elem_value a)(''new-ach'' := ''''))"
    by (simp add: addAch_def Let_def set_value_def truthy_trim)
  have 3: "elem_value (addExp a) =
     (if blank (elem_value a ''exp-title'') \<or> blank (elem_value a ''exp-company'')
      then elem_value a
      else (elem_value a)(''exp-title'' := '''', ''exp-company'' := '''',
             ''exp-period'' := '''', ''exp-bullets'' := ''''))"
    by (simp add: addExp_def Let_def set_value_def alert_def truthy_trim)
  have 4: "elem_value (addProj a) =
     (if blank (elem_value a ''proj-name'') then elem_value a
      else (elem_value a)(''proj-name'' := '''', ''proj-stack'' := '''',
             ''proj-desc'' := ''''))"
    by (simp add: addProj_def Let_def set_value_def alert_def truthy_trim)
  have 5: "elem_value (addEdu a) =
     (if blank (elem_value a ''edu-degree'') then elem_value a
      else (elem_value a)(''edu-degree'' := '''', ''edu-institute'' := '''',
             ''edu-year'' := '''', ''edu-grade'' := ''''))"
    by (simp add: addEdu_def Let_def set_value_def alert_def truthy_trim)
  show ?thesis
    by (intro conjI 1 2 3 4 5)
qed

theorem add_resets_inputs_witness:
  "\<not> blank (elem_value page1 ''exp-title'') \<and> \<not> blank (elem_value page1 ''exp-company'') \<and>
   elem_value page1 ''exp-period'' = ''2020-2022'' \<and>
   elem_value (addExp page1) ''exp-title'' = '''' \<and>
   elem_value (addExp page1) ''exp-company'' = '''' \<and>
   elem_value (addExp page1) ''exp-period'' = '''' \<and>
   elem_value (addExp page1) ''exp-bullets'' = '''' \<and>
   elem_value (addExp page1) ''new-skill'' = '' Go '' \<and>
   blank (elem_value (addExp page1) ''exp-title'') \<and>
   elem_value (addExp (addExp page1)) = elem_value (addExp page1)"
  using add_resets_inputs [of page1] add_resets_inputs [of "addExp page1"]
  by (simp add: page1_values blank_def is_ws_def)

section \<open>Indices out of range\<close>






















section \<open>Every run keeps the collections well formed\<close>

lemma list_all_js_splice: "list_all P xs \<Longrightarrow> list_all P (js_splice xs i n)"
  by (auto simp: js_splice_def Let_def list_all_iff dest: in_set_takeD in_set_dropD)

lemma wf_text_trim: "truthy (trim s) \<Longrightarrow> wf_text (trim s)"
  by (simp add: wf_text_def truthy_def trim_no_surrounding)

lemma wf_bullets_split:
  "list_all (\<lambda>b. sep \<notin> set b \<and> \<not> blank b) (filter (\<lambda>x. truthy (trim x)) (js_split sep s))"
  using split_parts_no_sep [of sep s] by (simp add: list_all_iff truthy_trim)

lemma wf_addSkill: "wf_collections (state a) \<Longrightarrow> wf_collections (state (addSkill a))"
  by (simp add: addSkill_def Let_def set_value_def wf_collections_def wf_text_trim)

lemma wf_addAch: "wf_collections (state a) \<Longrightarrow> wf_collections (state (addAch a))"
  by (simp add: addAch_def Let_def set_value_def wf_collections_def wf_text_trim)

lemma wf_addExp: "wf_collections (state a) \<Longrightarrow> wf_collections (state (addExp a))"
  by (simp add: addExp_def Let_def set_value_def alert_def wf_collections_def
      wf_experience_def wf_text_trim trim_no_surrounding wf_bullets_split)

lemma wf_addProj: "wf_collections (state a) \<Longrightarrow> wf_collections (state (addProj a))"
  by (simp add: addProj_def Let_def set_value_def alert_def wf_collections_def
      wf_project_def wf_text_trim trim_no_surrounding)

lemma wf_addEdu: "wf_collections (state a) \<Longrightarrow> wf_collections (state (addEdu a))"
  by (simp add: addEdu_def Let_def set_value_def alert_def wf_collections_def
      wf_education_def wf_text_trim trim_no_surrounding)

lemma wf_removeItem:
  "wf_collections (state a) \<Longrightarrow> wf_collections (state (removeItem listId i a))"
  by (simp add: removeItem_def wf_collections_def list_all_js_splice)

lemma wf_editItem:
  "wf_collections (state a) \<Longrightarrow> editItem listId i a = Inr a' \<Longrightarrow> wf_collections (state a')"
  by (auto simp: editItem_def set_value_def wf_collections_def list_all_js_splice
      split: if_splits option.splits)

lemma state_generateDocument: "state (generateDocument a r now) = state a"
  by (cases r) (simp_all add: generateDocument_def generate_begin_def generate_end_def
      alert_def Let_def)

lemma wf_step: "wf_collections (state a) \<Longrightarrow> wf_collections (state (step e a))"
proof (cases e)
  case (EditItem listId i)
  assume "wf_collections (state a)"
  then show ?thesis
    unfolding EditItem by (cases "editItem listId i a") (simp_all add: wf_editItem)
qed (simp_all add: wf_addSkill wf_addAch wf_addExp wf_addProj wf_addEdu wf_removeItem
    state_generateDocument)

lemma wf_run: "wf_collections (state a) \<Longrightarrow> wf_collections (state (run evs a))"
  unfolding run_def by (induction evs arbitrary: a) (simp_all add: wf_step)

lemma wf_initial: "initial a \<Longrightarrow> wf_collections (state a)"
  by (simp add: initial_def wf_collections_def)

section \<open>Edit followed by add\<close>

lemma wf_text_fixed:
  "wf_text s \<Longrightarrow> trim s = s"
  "wf_text s \<Longrightarrow> truthy s"
  by (simp_all add: wf_text_def trim_fixed truthy_def)

lemma list_all_nth: "list_all P xs \<Longrightarrow> k < length xs \<Longrightarrow> P (xs ! k)"
  by (simp add: list_all_length)

lemma edit_add_skills:
  assumes "wf_collections (state a)" and "k < length (skills (state a))"
  shows "\<exists>a1. editItem ''skills-list'' (int k) a = Inr a1 \<and>
           skills (state a1) = take k (skills (state a)) @ drop (Suc k) (skills (state a)) \<and>
           elem_value a1 ''new-skill'' = skills (state a) ! k \<and>
           state (addSkill a1) =
             (state a)\<lparr>skills := take k (skills (state a)) @ drop (Suc k) (skills (state a)) @
                                    [skills (state a) ! k]\<rparr>"
proof -
  let ?x = "skills (state a) ! k"
  let ?a1 = "(set_value ''new-skill'' ?x a)
               \<lparr>state := (state a)\<lparr>skills := js_splice (skills (state a)) (int k) 1\<rparr>\<rparr>"
  from assms have "wf_text ?x"
    by (simp add: wf_collections_def list_all_nth)
  then have t: "trim ?x = ?x" "truthy (trim ?x)"
    by (simp_all add: wf_text_fixed)
  have e: "editItem ''skills-list'' (int k) a = Inr ?a1"
    using assms(2) by (simp add: editItem_def js_index_valid)
  have v: "elem_value ?a1 ''new-skill'' = ?x"
    by (simp add: set_value_def)
  have s: "skills (state ?a1) = take k (skills (state a)) @ drop (Suc k) (skills (state a))"
    using assms(2) by (simp add: js_splice_valid)
  have "state (addSkill ?a1) = (state ?a1)\<lparr>skills := skills (state ?a1) @ [?x]\<rparr>"
    unfolding addSkill_def Let_def v using t by (simp add: set_value_def)
  then have "state (addSkill ?a1) =
      (state a)\<lparr>skills := take k (skills (state a)) @ drop (Suc k) (skills (state a)) @ [?x]\<rparr>"
    unfolding s by simp
  with e v s show ?thesis
    by (intro exI [of _ ?a1] conjI)
qed

lemma edit_add_achievements:
  assumes "wf_collections (state a)" and "k < length (achievements (state a))"
  shows "\<exists>a1. editItem ''ach-list'' (int k) a = Inr a1 \<and>
           achievements (state a1) =
             take k (achievements (state a)) @ drop (Suc k) (achievements (state a)) \<and>
           elem_value a1 ''new-ach'' = achievements (state a) ! k \<and>
           state (addAch a1) =
             (state a)\<lparr>achievements :=
                take k (achievements (state a)) @ drop (Suc k) (achievements (state a)) @
                [achievements (state a) ! k]\<rparr>"
proof -
  let ?x = "achievements (state a) ! k"
  let ?a1 = "(set_value ''new-ach'' ?x a)
               \<lparr>state := (state a)\<lparr>achievements :=
                  js_splice (achievements (state a)) (int k) 1\<rparr>\<rparr>"
  from assms have "wf_text ?x"
    by (simp add: wf_collections_def list_all_nth)
  then have t: "trim ?x = ?x" "truthy (trim ?x)"
    by (simp_all add: wf_text_fixed)
  have e: "editItem ''ach-list'' (int k) a = Inr ?a1"
    using assms(2) by (simp add: editItem_def js_index_valid)
  have v: "elem_value ?a1 ''new-ach'' = ?x"
    by (simp add: set_value_def)
  have s: "achievements (state ?a1) =
      take k (achievements (state a)) @ drop (Suc k) (achievements (state a))"
    using assms(2) by (simp add: js_splice_valid)
  have "state (addAch ?a1) = (state ?a1)\<lparr>achievements := achievements (state ?a1) @ [?x]\<rparr>"
    unfolding addAch_def Let_def v using t by (simp add: set_value_def)
  then have "state (addAch ?a1) =
      (state a)\<lparr>achievements :=
         take k (achievements (state a)) @ drop (Suc k) (achievements (state a)) @ [?x]\<rparr>"
    unfolding s by simp
  with e v s show ?thesis
    by (intro exI [of _ ?a1] conjI)
qed

lemma edit_add_experience:
  assumes "wf_collections (state a)" and "k < length (experience (state a))"
  shows "\<exists>a1. editItem ''experience-list'' (int k) a = Inr a1 \<and>
           experience (state a1) =
             take k (experience (state a)) @ drop (Suc k) (experience (state a)) \<and>
           elem_value a1 ''exp-title'' = title (experience (state a) ! k) \<and>
           elem_value a1 ''exp-company'' = company (experience (state a) ! k) \<and>
           elem_value a1 ''exp-period'' = period (experience (state a) ! k) \<and>
           elem_value a1 ''exp-bullets'' =
             js_join [newline] (bullets (experience (state a) ! k)) \<and>
           state (addExp a1) =
             (state a)\<lparr>experience :=
                take k (experience (state a)) @ drop (Suc k) (experience (state a)) @
                [experience (state a) ! k]\<rparr>"
proof -
  let ?x = "experience (state a) ! k"
  let ?a1 = "(set_value ''exp-bullets'' (js_join [newline] (bullets ?x))
               (set_value ''exp-period'' (period ?x)
                 (set_value ''exp-company'' (company ?x)
                   (set_value ''exp-title'' (title ?x) a))))
             \<lparr>state := (state a)\<lparr>experience :=
                js_splice (experience (state a)) (int k) 1\<rparr>\<rparr>"
  from assms have w: "wf_experience ?x"
    by (simp add: wf_collections_def list_all_nth)
  then have t: "trim (title ?x) = title ?x" "truthy (trim (title ?x))"
    "trim (company ?x) = company ?x" "truthy (trim (company ?x))"
    "trim (period ?x) = period ?x"
    by (simp_all add: wf_experience_def wf_text_fixed trim_fixed)
  from w have b: "filter (\<lambda>x. truthy (trim x))
      (js_split newline (js_join [newline] (bullets ?x))) = bullets ?x"
    by (simp add: wf_experience_def bullets_roundtrip)
  have e: "editItem ''experience-list'' (int k) a = Inr ?a1"
    using assms(2) by (simp add: editItem_def js_index_valid)
  have v: "elem_value ?a1 ''exp-title'' = title ?x"
    "elem_value ?a1 ''exp-company'' = company ?x"
    "elem_value ?a1 ''exp-period'' = period ?x"
    "elem_value ?a1 ''exp-bullets'' = js_join [newline] (bullets ?x)"
    by (simp_all add: set_value_def)
  have s: "experience (state ?a1) =
      take k (experience (state a)) @ drop (Suc k) (experience (state a))"
    using assms(2) by (simp add: js_splice_valid)
  have "state (addExp ?a1) = (state ?a1)\<lparr>experience := experience (state ?a1) @ [?x]\<rparr>"
    unfolding addExp_def Let_def v using t b by (simp add: set_value_def)
  then have "state (addExp ?a1) =
      (state a)\<lparr>experience :=
         take k (experience (state a)) @ drop (Suc k) (experience (state a)) @ [?x]\<rparr>"
    unfolding s by simp
  with e v s show ?thesis
    by (intro exI [of _ ?a1] conjI)
qed

lemma edit_add_projects:
  assumes "wf_collections (state a)" and "k < length (projects (state a))"
  shows "\<exists>a1. editItem ''project-list'' (int k) a = Inr a1 \<and>
           projects (state a1) =
             take k (projects (state a)) @ drop (Suc k) (projects (state a)) \<and>
           elem_value a1 ''proj-name'' = name (projects (state a) ! k) \<and>
           elem_value a1 ''proj-stack'' = tech_stack (projects (state a) ! k) \<and>
           elem_value a1 ''proj-desc'' = description (projects (state a) ! k) \<and>
           state (addProj a1) =
             (state a)\<lparr>projects :=
                take k (projects (state a)) @ drop (Suc k) (projects (state a)) @
                [projects (state a) ! k]\<rparr>"
proof -
  let ?x = "projects (state a) ! k"
  let ?a1 = "(set_value ''proj-desc'' (description ?x)
               (set_value ''proj-stack'' (tech_stack ?x)
                 (set_value ''proj-name'' (name ?x) a)))
             \<lparr>state := (state a)\<lparr>projects := js_splice (projects (state a)) (int k) 1\<rparr>\<rparr>"
  from assms have w: "wf_project ?x"
    by (simp add: wf_collections_def list_all_nth)
  then have t: "trim (name ?x) = name ?x" "truthy (trim (name ?x))"
    "trim (tech_stack ?x) = tech_stack ?x" "trim (description ?x) = description ?x"
    by (simp_all add: wf_project_def wf_text_fixed trim_fixed)
  have e: "editItem ''project-list'' (int k) a = Inr ?a1"
    using assms(2) by (simp add: editItem_def js_index_valid)
  have v: "elem_value ?a1 ''proj-name'' = name ?x"
    "elem_value ?a1 ''proj-stack'' = tech_stack ?x"
    "elem_value ?a1 ''proj-desc'' = description ?x"
    by (simp_all add: set_value_def)
  have s: "projects (state ?a1) =
      take k (projects (state a)) @ drop (Suc k) (projects (state a))"
    using assms(2) by (simp add: js_splice_valid)
  have "state (addProj ?a1) = (state ?a1)\<lparr>projects := projects (state ?a1) @ [?x]\<rparr>"
    unfolding addProj_def Let_def v using t by (simp add: set_value_def)
  then have "state (addProj ?a1) =
      (state a)\<lparr>projects :=
         take k (projects (state a)) @ drop (Suc k) (projects (state a)) @ [?x]\<rparr>"
    unfolding s by simp
  with e v s show ?thesis
    by (intro exI [of _ ?a1] conjI)
qed

lemma edit_add_education:
  assumes "wf_collections (state a)" and "k < length (education (state a))"
  shows "\<exists>a1. editItem ''edu-list'' (int k) a = Inr a1 \<and>
           education (state a1) =
             take k (education (state a)) @ drop (Suc k) (education (state a)) \<and>
           elem_value a1 ''edu-degree'' = degree (education (state a) ! k) \<and>
           elem_value a1 ''edu-institute'' = institute (education (state a) ! k) \<and>
           elem_value a1 ''edu-year'' = year (education (state a) ! k) \<and>
           elem_value a1 ''edu-grade'' = grade (education (state a) ! k) \<and>
           state (addEdu a1) =
             (state a)\<lparr>education :=
                take k (education (state a)) @ drop (Suc k) (education (state a)) @
                [education (state a) ! k]\<rparr>"
proof -
  let ?x = "education (state a) ! k"
  let ?a1 = "(set_value ''edu-grade'' (if truthy (grade ?x) then grade ?x else '''')
               (set_value ''edu-year'' (year ?x)
                 (set_value ''edu-institute'' (institute ?x)
                   (set_value ''edu-degree'' (degree ?x) a))))
             \<lparr>state := (state a)\<lparr>education := js_splice (education (state a)) (int k) 1\<rparr>\<rparr>"
  from assms have w: "wf_education ?x"
    by (simp add: wf_collections_def list_all_nth)
  then have t: "trim (degree ?x) = degree ?x" "truthy (trim (degree ?x))"
    "trim (institute ?x) = institute ?x" "trim (year ?x) = year ?x"
    "trim (grade ?x) = grade ?x"
    by (simp_all add: wf_education_def wf_text_fixed trim_fixed)
  have g: "(if truthy (grade ?x) then grade ?x else '''') = grade ?x"
    by (simp add: truthy_def)
  have e: "editItem ''edu-list'' (int k) a = Inr ?a1"
    using assms(2) by (simp add: editItem_def js_index_valid)
  have v: "elem_value ?a1 ''edu-degree'' = degree ?x"
    "elem_value ?a1 ''edu-institute'' = institute ?x"
    "elem_value ?a1 ''edu-year'' = year ?x"
    "elem_value ?a1 ''edu-grade'' = grade ?x"
    unfolding g by (simp_all add: set_value_def)
  have s: "education (state ?a1) =
      take k (education (state a)) @ drop (Suc k) (education (state a))"
    using assms(2) by (simp add: js_splice_valid)
  have "state (addEdu ?a1) = (state ?a1)\<lparr>education := education (state ?a1) @ [?x]\<rparr>"
    unfolding addEdu_def Let_def v using t by (simp add: set_value_def)
  then have "state (addEdu ?a1) =
      (state a)\<lparr>education :=
         take k (education (state a)) @ drop (Suc k) (education (state a)) @ [?x]\<rparr>"
    unfolding s by simp
  with e v s show ?thesis
    by (intro exI [of _ ?a1] conjI)
qed

lemma page2_is_a_run:
  "page2 =
     run [Elsewhere (typed [(''new-skill'', ''Python'')] page0), AddSkill, Elsewhere page1,
          AddSkill, AddAch, AddExp, AddProj, AddEdu] page0"
  by (simp add: eval_defs)

text \<open>
  C2. On a page reached by any run from the freshly loaded page, editing at a valid index
  \<open>k\<close> succeeds, removes the item at position \<open>k\<close> from its collection (the length drops
  by one) and writes the item's fields into the inputs of its form (the bullets joined by
  line breaks). Pressing add with these inputs untouched stores an item equal to the
  original at the end of the collection, after the items that followed it, not back at
  position \<open>k\<close>; the other collections are as before the edit.
\<close>

theorem edit_then_add_moves_item_to_end:
  assumes "initial a0" and "a = run evs a0"
  shows "(k < length (skills (state a)) \<longrightarrow>
          (\<exists>a1. editItem ''skills-list'' (int k) a = Inr a1 \<and>
             skills (state a1) = take k (skills (state a)) @ drop (Suc k) (skills (state a)) \<and>
             elem_value a1 ''new-skill'' = skills (state a) ! k \<and>
             state (addSkill a1) =
               (state a)\<lparr>skills :=
                  take k (skills (state a)) @ drop (Suc k) (skills (state a)) @
                  [skills (state a) ! k]\<rparr>)) \<and>
         (k < length (achievements (state a)) \<longrightarrow>
          (\<exists>a1. editItem ''ach-list'' (int k) a = Inr a1 \<and>
             achievements (state a1) =
               take k (achievements (state a)) @ drop (Suc k) (achievements (state a)) \<and>
             elem_value a1 ''new-ach'' = achievements (state a) ! k \<and>
             state (addAch a1) =
               (state a)\<lparr>achievements :=
                  take k (achievements (state a)) @ drop (Suc k) (achievements (state a)) @
                  [achievements (state a) ! k]\<rparr>)) \<and>
         (k < length (experience (state a)) \<longrightarrow>
          (\<exists>a1. editItem ''experience-list'' (int k) a = Inr a1 \<and>
             experience (state a1) =
               take k (experience (state a)) @ drop (Suc k) (experience (state a)) \<and>
             elem_value a1 ''exp-title'' = title (experience (state a) ! k) \<and>
             elem_value a1 ''exp-company'' = company (experience (state a) ! k) \<and>
             elem_value a1 ''exp-period'' = period (experience (state a) ! k) \<and>
             elem_value a1 ''exp-bullets'' =
               js_join [newline] (bullets (experience (state a) ! k)) \<and>
             state (addExp a1) =
               (state a)\<lparr>experience :=
                  take k (experience (state a)) @ drop (Suc k) (experience (state a)) @
                  [experience (state a) ! k]\<rparr>)) \<and>
         (k < length (projects (state a)) \<longrightarrow>
          (\<exists>a1. editItem ''project-list'' (int k) a = Inr a1 \<and>
             projects (state a1) =
               take k (projects (state a)) @ drop (Suc k) (projects (state a)) \<and>
             elem_value a1 ''proj-name'' = name (projects (state a) ! k) \<and>
             elem_value a1 ''proj-stack'' = tech_stack (projects (state a) ! k) \<and>
             elem_value a1 ''proj-desc'' = description (projects (state a) ! k) \<and>
             state (addProj a1) =
               (state a)\<lparr>projects :=
                  take k (projects (state a)) @ drop (Suc k) (projects (state a)) @
                  [projects (state a) ! k]\<rparr>)) \<and>
         (k < length (education (state a)) \<longrightarrow>
          (\<exists>a1. editItem ''edu-list'' (int k) a = Inr a1 \<and>
             education (state a1) =
               take k (education (state a)) @ drop (Suc k) (education (state a)) \<and>
             elem_value a1 ''edu-degree'' = degree (education (state a) ! k) \<and>
             elem_value a1 ''edu-institute'' = institute (education (state a) ! k) \<and>
             elem_value a1 ''edu-year'' = year (education (state a) ! k) \<and>
             elem_value a1 ''edu-grade'' = grade (education (state a) ! k) \<and>
             state (addEdu a1) =
               (state a)\<lparr>education :=
                  take k (education (state a)) @ drop (Suc k) (education (state a)) @
                  [education (state a) ! k]\<rparr>))"
proof -
  from assms have w: "wf_collections (state a)"
    by (simp add: wf_initial wf_run)
  show ?thesis
    by (intro conjI impI edit_add_skills [OF w] edit_add_achievements [OF w]
        edit_add_experience [OF w] edit_add_projects [OF w] edit_add_education [OF w])
qed

theorem edit_then_add_moves_item_to_end_witness:
  "initial page0 \<and>
   page2 =
     run [Elsewhere (typed [(''new-skill'', ''Python'')] page0), AddSkill, Elsewhere page1,
          AddSkill, AddAch, AddExp, AddProj, AddEdu] page0 \<and>
   skills (state page2) = [''Python'', ''Go''] \<and>
   (\<exists>a1. editItem ''skills-list'' 0 page2 = Inr a1 \<and>
      skills (state a1) = [''Go''] \<and>
      elem_value a1 ''new-skill'' = ''Python'' \<and>
      skills (state (addSkill a1)) = [''Go'', ''Python''])"
proof -
  have i: "initial page0"
    by (simp add: initial_def page0_def)
  have k: "0 < length (skills (state page2))"
    by (simp add: page2_state)
  have "0 < length (skills (state page2)) \<longrightarrow>
      (\<exists>a1. editItem ''skills-list'' (int 0) page2 = Inr a1 \<and>
         skills (state a1) =
           take 0 (skills (state page2)) @ drop (Suc 0) (skills (state page2)) \<and>
         elem_value a1 ''new-skill'' = skills (state page2) ! 0 \<and>
         state (addSkill a1) =
           (state page2)\<lparr>skills :=
              take 0 (skills (state page2)) @ drop (Suc 0) (skills (state page2)) @
              [skills (state page2) ! 0]\<rparr>)"
    by (rule conjunct1 [OF edit_then_add_moves_item_to_end [OF i page2_is_a_run, of 0]])
  then have "\<exists>a1. editItem ''skills-list'' (int 0) page2 = Inr a1 \<and>
         skills (state a1) =
           take 0 (skills (state page2)) @ drop (Suc 0) (skills (state page2)) \<and>
         elem_value a1 ''new-skill'' = skills (state page2) ! 0 \<and>
         state (addSkill a1) =
           (state page2)\<lparr>skills :=
              take 0 (skills (state page2)) @ drop (Suc 0) (skills (state page2)) @
              [skills (state page2) ! 0]\<rparr>"
    using k by (rule mp)
  then obtain a1 where 1: "editItem ''skills-list'' (int 0) page2 = Inr a1"
    and 2: "skills (state a1) =
              take 0 (skills (state page2)) @ drop (Suc 0) (skills (state page2))"
    and 3: "elem_value a1 ''new-skill'' = skills (state page2) ! 0"
    and 4: "state (addSkill a1) =
              (state page2)\<lparr>skills :=
                 take 0 (skills (state page2)) @ drop (Suc 0) (skills (state page2)) @
                 [skills (state page2) ! 0]\<rparr>"
    by (elim exE conjE)
  from 4 have "skills (state (addSkill a1)) = [''Go'', ''Python'']"
    by (simp add: page2_state)
  with 1 2 3 have f: "editItem ''skills-list'' 0 page2 = Inr a1 \<and>
      skills (state a1) = [''Go''] \<and>
      elem_value a1 ''new-skill'' = ''Python'' \<and>
      skills (state (addSkill a1)) = [''Go'', ''Python'']"
    by (simp add: page2_state)
  have e: "\<exists>a1. editItem ''skills-list'' 0 page2 = Inr a1 \<and>
      skills (state a1) = [''Go''] \<and>
      elem_value a1 ''new-skill'' = ''Python'' \<and>
      skills (state (addSkill a1)) = [''Go'', ''Python'']"
    by (rule exI [of _ a1]) (rule f)
  have s: "skills (state page2) = [''Python'', ''Go'']"
    by (simp add: page2_state)
  show ?thesis
    by (intro conjI i page2_is_a_run s e)
qed

section \<open>The request\<close>

lemmas payload_fields_defs = payload_fields_def baseFields_def assign_all_def assign_def
  Let_def

lemma payload_fields_resume:
  "elem_value a ''doc-type'' = ''resume'' \<Longrightarrow>
   payload_fields a =
     [(''name'', Text (elem_value a ''field-name'')),
      (''email'', Text (elem_value a ''field-email'')),
      (''phone'', Text (elem_value a ''field-phone'')),
      (''location'', Text (elem_value a ''field-location'')),
      (''summary'', Text (elem_value a ''field-summary'')),
      (''skills'', TextList (skills (state a))),
      (''experience_list'', ExperienceList (experience (state a))),
      (''education'', EducationList (education (state a))),
      (''projects'', ProjectList (projects (state a))),
      (''achievements'', TextList (achievements (state a)))]"
  by (simp add: payload_fields_defs)

lemma payload_fields_sop:
  "elem_value a ''doc-type'' = ''sop'' \<Longrightarrow>
   payload_fields a =
     [(''name'', Text (elem_value a ''field-name'')),
      (''email'', Text (elem_value a ''field-email'')),
      (''phone'', Text (elem_value a ''field-phone'')),
      (''location'', Text (elem_value a ''field-location'')),
      (''applicant_name'', Text (elem_value a ''field-name'')),
      (''intro'', Text (elem_value a ''sop-intro'')),
      (''academic_background'', Text (elem_value a ''sop-academic'')),
      (''research_experience'', Text (elem_value a ''sop-research'')),
      (''why_program'', Text (elem_value a ''sop-why-program'')),
      (''career_goals'', Text (elem_value a ''sop-goals'')),
      (''conclusion'', Text (elem_value a ''sop-conclusion''))]"
  by (simp add: payload_fields_defs)

lemma payload_fields_letter:
  "elem_value a ''doc-type'' = ''letter'' \<Longrightarrow>
   payload_fields a =
     [(''name'', Text (elem_value a ''field-name'')),
      (''email'', Text (elem_value a ''field-email'')),
      (''phone'', Text (elem_value a ''field-phone'')),
      (''location'', Text (elem_value a ''field-location'')),
      (''sender_name'', Text (elem_value a ''letter-sender-name'')),
      (''sender_address'', Text (elem_value a ''letter-sender-addr'')),
      (''receiver_name'', Text (elem_value a ''letter-receiver-name'')),
      (''receiver_address'', Text (elem_value a ''letter-receiver-addr'')),
      (''receiver_salutation'', Text (elem_value a ''letter-salutation'')),
      (''subject'', Text (elem_value a ''letter-subject'')),
      (''date'', Text (elem_value a ''letter-date'')),
      (''body'', Text (elem_value a ''letter-body''))]"
  by (simp add: payload_fields_defs)

lemma payload_fields_contract:
  "elem_value a ''doc-type'' = ''contract'' \<Longrightarrow>
   payload_fields a =
     [(''name'', Text (elem_value a ''field-name'')),
      (''email'', Text (elem_value a ''field-email'')),
      (''phone'', Text (elem_value a ''field-phone'')),
      (''location'', Text (elem_value a ''field-location'')),
      (''party_a'', Text (elem_value a ''cont-party-a'')),
      (''party_b'', Text (elem_value a ''cont-party-b'')),
      (''date_a'', Text (elem_value a ''cont-date-a'')),
      (''date_b'', Text (elem_value a ''cont-date-b'')),
      (''scope'', Text (elem_value a ''cont-scope'')),
      (''responsibilities'', Text (elem_value a ''cont-resp'')),
      (''payment_terms'', Text (elem_value a ''cont-payment'')),
      (''confidentiality_clause'', Text (elem_value a ''cont-confidentiality'')),
      (''termination_clause'', Text (elem_value a ''cont-termination''))]"
  by (simp add: payload_fields_defs)

lemma payload_fields_report:
  "elem_value a ''doc-type'' = ''report'' \<Longrightarrow>
   payload_fields a =
     [(''name'', Text (elem_value a ''field-name'')),
      (''email'', Text (elem_value a ''field-email'')),
      (''phone'', Text (elem_value a ''field-phone'')),
      (''location'', Text (elem_value a ''field-location'')),
      (''title'', Text (elem_value a ''rep-title'')),
      (''author'', Text (elem_value a ''rep-author'')),
      (''date'', Text (elem_value a ''rep-date'')),
      (''executive_summary'', Text (elem_value a ''rep-summary'')),
      (''objectives'', Text (elem_value a ''rep-objectives'')),
      (''methodology'', Text (elem_value a ''rep-methodology'')),
      (''findings'', Text (elem_value a ''rep-findings'')),
      (''recommendations'', Text (elem_value a ''rep-recs'')),
      (''conclusion'', Text (elem_value a ''rep-conclusion''))]"
  by (simp add: payload_fields_defs)

lemma doc_types_disj:
  "t \<in> set doc_types \<Longrightarrow>
   t = ''resume'' \<or> t = ''sop'' \<or> t = ''letter'' \<or> t = ''contract'' \<or> t = ''report''"
  by (simp add: doc_types_def)

lemma payload_fields_key_list:
  assumes "t \<in> set doc_types" and "elem_value a ''doc-type'' = t"
  shows "map fst (payload_fields a) = base_keys @ schema_keys t \<and>
         distinct (map fst (payload_fields a)) \<and>
         (t = ''sop'' \<longrightarrow>
            map_of (payload_fields a) ''applicant_name'' =
              Some (Text (elem_value a ''field-name'')) \<and>
            map_of (payload_fields a) ''name'' = Some (Text (elem_value a ''field-name'')))"
  using doc_types_disj [OF assms(1)]
proof (elim disjE)
  assume t: "t = ''resume''"
  with assms(2) have d: "elem_value a ''doc-type'' = ''resume''"
    by simp
  show ?thesis unfolding t
    by (simp add: payload_fields_resume [OF d] base_keys_def schema_keys_def)
next
  assume t: "t = ''sop''"
  with assms(2) have d: "elem_value a ''doc-type'' = ''sop''"
    by simp
  show ?thesis unfolding t
    by (simp add: payload_fields_sop [OF d] base_keys_def schema_keys_def)
next
  assume t: "t = ''letter''"
  with assms(2) have d: "elem_value a ''doc-type'' = ''letter''"
    by simp
  show ?thesis unfolding t
    by (simp add: payload_fields_letter [OF d] base_keys_def schema_keys_def)
next
  assume t: "t = ''contract''"
  with assms(2) have d: "elem_value a ''doc-type'' = ''contract''"
    by simp
  show ?thesis unfolding t
    by (simp add: payload_fields_contract [OF d] base_keys_def schema_keys_def)
next
  assume t: "t = ''report''"
  with assms(2) have d: "elem_value a ''doc-type'' = ''report''"
    by simp
  show ?thesis unfolding t
    by (simp add: payload_fields_report [OF d] base_keys_def schema_keys_def)
qed

lemma payload_button: "payload (a\<lparr>btn_innerHTML := l, btn_disabled := d\<rparr>) = payload a"
  by (simp add: payload_def payload_fields_def baseFields_def Let_def cong: if_cong)

lemma sent_fields:
  "map_of (sent (snd (generate_begin a))) ''fields'' = Some (PFields (payload_fields a))"
  by (simp add: generate_begin_def Let_def payload_button) (simp add: payload_def)

text \<open>
  C1. For each of the five document types, the \<open>fields\<close> of the payload that is sent is
  the object \<open>payload_fields\<close>, and the keys of the \<open>fields\<close> object are the
  four base identity keys followed by the keys that section 4.2 lists for the type, each
  exactly once and no other key. For \<open>sop\<close>, \<open>applicant_name\<close> carries the value of the
  base \<open>name\<close>, which stays in the object too.
\<close>

theorem payload_fields_keys:
  assumes "t \<in> set doc_types" and "elem_value a ''doc-type'' = t"
  shows "map_of (sent (snd (generate_begin a))) ''fields'' = Some (PFields (payload_fields a)) \<and>
         map fst (payload_fields a) = base_keys @ schema_keys t \<and>
         set (map fst (payload_fields a)) = set base_keys \<union> set (schema_keys t) \<and>
         distinct (map fst (payload_fields a)) \<and>
         (t = ''sop'' \<longrightarrow>
            map_of (payload_fields a) ''applicant_name'' =
              Some (Text (elem_value a ''field-name'')) \<and>
            map_of (payload_fields a) ''name'' = Some (Text (elem_value a ''field-name'')))"
proof -
  note l = payload_fields_key_list [OF assms]
  from l have k: "map fst (payload_fields a) = base_keys @ schema_keys t"
    by (rule conjunct1)
  have s: "set (map fst (payload_fields a)) = set base_keys \<union> set (schema_keys t)"
    unfolding k by (rule set_append)
  from l have r: "distinct (map fst (payload_fields a)) \<and>
         (t = ''sop'' \<longrightarrow>
            map_of (payload_fields a) ''applicant_name'' =
              Some (Text (elem_value a ''field-name'')) \<and>
            map_of (payload_fields a) ''name'' = Some (Text (elem_value a ''field-name'')))"
    by (rule conjunct2)
  show ?thesis
    by (intro conjI sent_fields k s conjunct1 [OF r] conjunct2 [OF r])
qed

theorem payload_fields_keys_witness:
  "''letter'' \<in> set doc_types \<and> ''sop'' \<in> set doc_types \<and>
   elem_value (typed [(''doc-type'', ''letter'')] page2) ''doc-type'' = ''letter'' \<and>
   map fst (payload_fields (typed [(''doc-type'', ''letter'')] page2)) =
     [''name'', ''email'', ''phone'', ''location'', ''sender_name'', ''sender_address'',
      ''receiver_name'', ''receiver_address'', ''receiver_salutation'', ''subject'', ''date'',
      ''body''] \<and>
   elem_value (typed [(''doc-type'', ''sop''), (''field-name'', ''Ada'')] page2) ''doc-type'' =
     ''sop'' \<and>
   map_of (payload_fields (typed [(''doc-type'', ''sop''), (''field-name'', ''Ada'')] page2))
     ''applicant_name'' = Some (Text ''Ada'')"
proof -
  have t: "''letter'' \<in> set doc_types" "''sop'' \<in> set doc_types"
    by (simp_all add: doc_types_def)
  have d: "elem_value (typed [(''doc-type'', ''letter'')] page2) ''doc-type'' = ''letter''"
    "elem_value (typed [(''doc-type'', ''sop''), (''field-name'', ''Ada'')] page2) ''doc-type'' =
       ''sop''"
    "elem_value (typed [(''doc-type'', ''sop''), (''field-name'', ''Ada'')] page2)
       ''field-name'' = ''Ada''"
    by (simp_all add: typed_def set_value_def)
  from payload_fields_keys [OF t(1) d(1)]
  have 1: "map fst (payload_fields (typed [(''doc-type'', ''letter'')] page2)) =
     [''name'', ''email'', ''phone'', ''location'', ''sender_name'', ''sender_address'',
      ''receiver_name'', ''receiver_address'', ''receiver_salutation'', ''subject'', ''date'',
      ''body'']"
    by (simp add: base_keys_def schema_keys_def)
  from payload_fields_keys [OF t(2) d(2)]
  have 2: "map_of (payload_fields (typed [(''doc-type'', ''sop''), (''field-name'', ''Ada'')]
      page2)) ''applicant_name'' = Some (Text ''Ada'')"
    by (simp add: d(3))
  show ?thesis
    by (intro conjI t d(1) d(2) 1 2)
qed

text \<open>
  C4, as the claim states it, fails on the name of one field: the object that
  \<open>generateDocument\<close> builds has the key \<open>use_gemini\<close>, and no key \<open>use_ai\<close>.
\<close>

theorem payload_has_no_use_ai_key:
  "map fst (payload page0) =
     [''doc_type'', ''use_gemini'', ''ai_context'', ''fields'', ''return_docx''] \<and>
   ''use_ai'' \<in> set spec_payload_keys \<and>
   ''use_ai'' \<notin> set (map fst (payload page0))"
  by (simp add: payload_def spec_payload_keys_def)

text \<open>
  C4, amended. The payload sent by every submission has exactly the top-level fields
  \<open>doc_type\<close>, \<open>use_gemini\<close>, \<open>ai_context\<close>, \<open>fields\<close> and \<open>return_docx\<close>.
  \<open>use_gemini\<close> is true exactly in the guided (AI-assisted) mode; \<open>ai_context\<close> is
  \<open>null\<close> in any other mode and is the text of the AI-context input, empty or not, in
  the guided mode.
\<close>

theorem payload_top_level_fields:
  "sent (snd (generate_begin a)) = payload a \<and>
   map fst (payload a) =
     [''doc_type'', ''use_gemini'', ''ai_context'', ''fields'', ''return_docx''] \<and>
   map_of (payload a) ''use_gemini'' = Some (PBool (currentMode a = ''guided'')) \<and>
   map_of (payload a) ''ai_context'' =
     Some (if currentMode a = ''guided'' then PText (elem_value a ''ai-context'') else PNull)"
proof -
  have 1: "sent (snd (generate_begin a)) = payload a"
    by (simp add: generate_begin_def Let_def payload_button)
  have 2: "map fst (payload a) =
     [''doc_type'', ''use_gemini'', ''ai_context'', ''fields'', ''return_docx'']"
    by (simp add: payload_def)
  have 3: "map_of (payload a) ''use_gemini'' = Some (PBool (currentMode a = ''guided''))"
    by (simp add: payload_def)
  have 4: "map_of (payload a) ''ai_context'' =
     Some (if currentMode a = ''guided'' then PText (elem_value a ''ai-context'') else PNull)"
    by (simp add: payload_def)
  show ?thesis
    by (intro conjI 1 2 3 4)
qed

theorem payload_top_level_fields_witness:
  "currentMode page0 \<noteq> ''guided'' \<and>
   map_of (payload page0) ''use_gemini'' = Some (PBool False) \<and>
   map_of (payload page0) ''ai_context'' = Some PNull \<and>
   currentMode (page0\<lparr>currentMode := ''guided''\<rparr>) = ''guided'' \<and>
   elem_value (page0\<lparr>currentMode := ''guided''\<rparr>) ''ai-context'' = '''' \<and>
   map_of (payload (page0\<lparr>currentMode := ''guided''\<rparr>)) ''use_gemini'' = Some (PBool True) \<and>
   map_of (payload (page0\<lparr>currentMode := ''guided''\<rparr>)) ''ai_context'' = Some (PText '''')"
proof -
  have m: "currentMode page0 = ''manual''" "elem_value page0 ''ai-context'' = ''''"
    by (simp_all add: page0_def)
  show ?thesis
    using payload_top_level_fields [of page0]
      payload_top_level_fields [of "page0\<lparr>currentMode := ''guided''\<rparr>"]
    by (simp add: m)
qed

section \<open>The outcome of a submission\<close>

lemma generate_end_frame:
  "state (generate_end p r now b) = state b"
  "elem_value (generate_end p r now b) = elem_value b"
  "btn_innerHTML (generate_end p r now b) = originalText p"
  "btn_disabled (generate_end p r now b) = False"
  by (cases r; simp add: generate_end_def alert_def Let_def)+

text \<open>
  C3. Whatever the outcome, a submission leaves the five collections and the value of
  every input as they were just before it, and ends with the trigger control showing its
  original label and enabled. A response that is not \<open>ok\<close> and carries a detail text
  shows that text, after the prefix \<open>Error: \<close>, in one alert; without a detail (absent
  or empty) the alert shows \<open>Generation failed\<close> instead. The same holds when the
  function resumes on a page \<open>b\<close> that has changed while the request was in flight.
\<close>

theorem failed_submission_changes_nothing:
  "state (generateDocument a r now) = state a \<and>
   elem_value (generateDocument a r now) = elem_value a \<and>
   btn_innerHTML (generateDocument a r now) = btn_innerHTML a \<and>
   \<not> btn_disabled (generateDocument a r now) \<and>
   (truthy d \<longrightarrow>
      alerts (generateDocument a (NotOk (Body (Some d))) now) = alerts a @ [''Error: '' @ d]) \<and>
   alerts (generateDocument a (NotOk (Body None)) now) =
     alerts a @ [''Error: Generation failed''] \<and>
   alerts (generateDocument a (NotOk (Body (Some ''''))) now) =
     alerts a @ [''Error: Generation failed''] \<and>
   state (generate_end p r now b) = state b \<and>
   elem_value (generate_end p r now b) = elem_value b \<and>
   btn_innerHTML (generate_end p r now b) = originalText p \<and>
   \<not> btn_disabled (generate_end p r now b)"
proof -
  have 1: "state (generateDocument a r now) = state a"
    by (simp add: generateDocument_def generate_begin_def Let_def generate_end_frame)
  have 2: "elem_value (generateDocument a r now) = elem_value a"
    by (simp add: generateDocument_def generate_begin_def Let_def generate_end_frame)
  have 3: "btn_innerHTML (generateDocument a r now) = btn_innerHTML a"
    by (simp add: generateDocument_def generate_begin_def Let_def generate_end_frame)
  have 4: "\<not> btn_disabled (generateDocument a r now)"
    by (simp add: generateDocument_def generate_begin_def Let_def generate_end_frame)
  have 5: "truthy d \<longrightarrow>
      alerts (generateDocument a (NotOk (Body (Some d))) now) = alerts a @ [''Error: '' @ d]"
    by (simp add: generateDocument_def generate_begin_def Let_def generate_end_def
        alert_def error_message_def)
  have 6: "alerts (generateDocument a (NotOk (Body None)) now) =
     alerts a @ [''Error: Generation failed'']"
    by (simp add: generateDocument_def generate_begin_def Let_def generate_end_def
        alert_def error_message_def)
  have 7: "alerts (generateDocument a (NotOk (Body (Some ''''))) now) =
     alerts a @ [''Error: Generation failed'']"
    by (simp add: generateDocument_def generate_begin_def Let_def generate_end_def
        alert_def error_message_def truthy_def)
  have 8: "\<not> btn_disabled (generate_end p r now b)"
    by (simp add: generate_end_frame)
  show ?thesis
    by (intro conjI 1 2 3 4 5 6 7 8 generate_end_frame)
qed

theorem failed_submission_changes_nothing_witness:
  "truthy ''Generation failed'' \<and>
   state (generateDocument page2 (NotOk (Body (Some ''Generation failed''))) 0) =
     state page2 \<and>
   elem_value (generateDocument page2 (NotOk (Body (Some ''Generation failed''))) 0) =
     elem_value page2 \<and>
   btn_innerHTML (generateDocument page2 (NotOk (Body (Some ''Generation failed''))) 0) =
     ''Generate Document'' \<and>
   \<not> btn_disabled (generateDocument page2 (NotOk (Body (Some ''Generation failed''))) 0) \<and>
   alerts (generateDocument page2 (NotOk (Body (Some ''Generation failed''))) 0) =
     [''Error: Generation failed'']"
proof -
  have b: "btn_innerHTML page2 = ''Generate Document''" "alerts page2 = []"
    by (simp_all add: eval_defs)
  show ?thesis
    using failed_submission_changes_nothing
      [of page2 "NotOk (Body (Some ''Generation failed''))" 0 "''Generation failed''"]
    by (simp add: b truthy_def)
qed

end
